theory Spec2Isabelle
  imports Complex_Main
begin

section \<open>JavaScript values as the hooks see them\<close>

text \<open>
  Both hooks receive frames as text and hand them to \<^verbatim>\<open>JSON.parse\<close>. The parser belongs to
  the language runtime; a frame is modelled by what the parser makes of it: \<open>None\<close> when
  \<^verbatim>\<open>JSON.parse\<close> throws, \<open>Some v\<close> when it returns the value \<open>v\<close>. \<open>JUndefined\<close> is what reading
  an absent property gives. Numbers are rationals (the claims do not depend on
  rounding). An object is the list of its own properties; a lookup takes the first
  binding of a key.
\<close>

datatype jv =
    JUndefined
  | JNull
  | JBool bool
  | JNum rat
  | JStr string
  | JArr "jv list"
  | JObj "(string \<times> jv) list"

text \<open>\<^verbatim>\<open>if (v)\<close>, \<^verbatim>\<open>!v\<close>, \<^verbatim>\<open>a || b\<close>, \<^verbatim>\<open>a && b\<close>: JavaScript truthiness.\<close>

fun truthy :: "jv \<Rightarrow> bool" where
  "truthy JUndefined = False"
| "truthy JNull = False"
| "truthy (JBool b) = b"
| "truthy (JNum n) = (n \<noteq> 0)"
| "truthy (JStr s) = (s \<noteq> [])"
| "truthy (JArr xs) = True"
| "truthy (JObj kvs) = True"

text \<open>Reading a property of \<^verbatim>\<open>null\<close> or \<^verbatim>\<open>undefined\<close> throws a TypeError.\<close>

fun nullish :: "jv \<Rightarrow> bool" where
  "nullish JUndefined = True"
| "nullish JNull = True"
| "nullish v = False"

text \<open>
  \<^verbatim>\<open>v.k\<close> for a value that is not nullish, and for the property names the hooks read
  (none of them is a built-in property of a string, number, boolean or array).
\<close>

fun field :: "jv \<Rightarrow> string \<Rightarrow> jv" where
  "field (JObj kvs) k = (case map_of kvs k of None \<Rightarrow> JUndefined | Some v \<Rightarrow> v)"
| "field v k = JUndefined"

text \<open>\<^verbatim>\<open>typeof v === 'number'\<close> and \<^verbatim>\<open>typeof v === 'string'\<close>.\<close>

fun is_number :: "jv \<Rightarrow> bool" where
  "is_number (JNum n) = True"
| "is_number v = False"

fun is_string :: "jv \<Rightarrow> bool" where
  "is_string (JStr s) = True"
| "is_string v = False"

text \<open>\<^verbatim>\<open>typeof v === 'object'\<close>: objects, arrays and \<^verbatim>\<open>null\<close>.\<close>

fun is_object :: "jv \<Rightarrow> bool" where
  "is_object (JObj kvs) = True"
| "is_object (JArr xs) = True"
| "is_object JNull = True"
| "is_object v = False"

text \<open>
  \<^verbatim>\<open>a !== n\<close> where \<open>n\<close> is a number: strict inequality compares primitives by value, and
  an object or array is never equal to a number.
\<close>

definition strict_neq :: "jv \<Rightarrow> jv \<Rightarrow> bool" where
  "strict_neq a b = (a \<noteq> b)"

text \<open>\<^verbatim>\<open>a || b\<close>.\<close>

definition js_or :: "jv \<Rightarrow> jv \<Rightarrow> jv" where
  "js_or a b = (if truthy a then a else b)"

text \<open>
  A JavaScript number is a double. A rational number is a (finite) double when it is
  \<open>m * 2 ^ e\<close> for integers \<open>\<bar>m\<bar> < 2 ^ 53\<close> and \<open>- 1074 \<le> e \<le> 971\<close>: in lowest terms its
  denominator is a power of two, at most \<open>2 ^ 1074\<close>, the odd part of its numerator is below
  \<open>2 ^ 53\<close>, and its magnitude is below \<open>2 ^ 1024\<close>. An operation of IEEE 754 arithmetic whose
  exact result is a double returns that result; otherwise it rounds, overflows to
  \<^verbatim>\<open>Infinity\<close> or, as \<^verbatim>\<open>0 * Infinity\<close>, gives \<^verbatim>\<open>NaN\<close>.
\<close>

function oddPart :: "int \<Rightarrow> int" where
  "oddPart n = (if n \<le> 0 \<or> odd n then n else oddPart (n div 2))"
  by pat_completeness auto
termination
  by (relation "measure nat") auto

declare oddPart.simps [simp del]

definition double :: "rat \<Rightarrow> bool" where
  "double q =
     (let (n, d) = quotient_of q
      in oddPart d = 1 \<and> d \<le> 2 ^ 1074 \<and> oddPart \<bar>n\<bar> < 2 ^ 53 \<and> \<bar>n\<bar> < 2 ^ 1024)"

section \<open>Timers of the runtime\<close>

text \<open>
  \<^verbatim>\<open>setTimeout\<close>/\<^verbatim>\<open>setInterval\<close> arm a timer and return its handle; \<^verbatim>\<open>clearTimeout\<close>/
  \<^verbatim>\<open>clearInterval\<close> disarm it. The table holds the timers that are armed: handle, what the
  callback is, and the delay in milliseconds. A one-shot timer leaves the table when it
  fires.
\<close>

type_synonym 'k timer_table = "(nat \<times> 'k \<times> rat) list"

definition arm :: "nat \<Rightarrow> 'k \<Rightarrow> rat \<Rightarrow> 'k timer_table \<Rightarrow> 'k timer_table" where
  "arm h k d tbl = tbl @ [(h, k, d)]"

definition disarm :: "nat \<Rightarrow> 'k timer_table \<Rightarrow> 'k timer_table" where
  "disarm h tbl = filter (\<lambda>t. fst t \<noteq> h) tbl"

text \<open>\<^verbatim>\<open>if (ref.current) { clearTimeout(ref.current); ref.current = null }\<close>\<close>

definition disarm_ref :: "nat option \<Rightarrow> 'k timer_table \<Rightarrow> 'k timer_table" where
  "disarm_ref r tbl = (case r of None \<Rightarrow> tbl | Some h \<Rightarrow> disarm h tbl)"

definition kinds :: "'k timer_table \<Rightarrow> 'k list" where
  "kinds tbl = map (\<lambda>t. fst (snd t)) tbl"

section \<open>The task stream hook (useTaskStream)\<close>

text \<open>
  The fields of a task that the hook reads or writes, as the hook writes them (it puts
  \<^verbatim>\<open>startTime\<close>, \<^verbatim>\<open>endTime\<close> and \<^verbatim>\<open>duration\<close> at the top level of the task). The values come from
  parsed frames without a runtime check, so each is a JavaScript value.
\<close>

record Task =
  status :: jv
  progress :: jv
  currentStep :: jv
  errorMessage :: jv
  startTime :: jv
  endTime :: jv
  duration :: jv
  outputData :: jv

text \<open>The options of the hook, after the defaults of the destructuring are applied.\<close>

record UseTaskStreamOptions =
  taskId :: string
  autoReconnect :: bool
  reconnectInterval :: rat
  maxReconnectAttempts :: nat
  heartbeatInterval :: rat
  enableHeartbeat :: bool
  retryOnNetworkError :: bool

definition defaultOptions :: "string \<Rightarrow> UseTaskStreamOptions" where
  "defaultOptions tid =
     \<lparr>taskId = tid, autoReconnect = True, reconnectInterval = 3000,
      maxReconnectAttempts = 5, heartbeatInterval = 30000, enableHeartbeat = True,
      retryOnNetworkError = True\<rparr>"

text \<open>The caller's callbacks, recorded in call order. An absent callback makes \<^verbatim>\<open>cb?.(x)\<close> a no-op.\<close>

datatype callback =
    OnProgress jv
  | OnStatusChange jv
  | OnStepChange jv
  | OnCompleted jv
  | OnRetry nat nat
  | OnError jv

datatype sse_timer = ReconnectTimer nat | HeartbeatTimeout

text \<open>
  The React state of the hook (\<^verbatim>\<open>useState\<close>), its refs (\<^verbatim>\<open>useRef\<close>), the timers it has armed
  and the callbacks it has invoked. \<open>eventSourceRef\<close> holds the number of the open
  EventSource, \<open>closedSources\<close> the sources on which \<^verbatim>\<open>close()\<close> was called.
\<close>

record stream =
  progressState :: jv
  isConnected :: bool
  isConnecting :: bool
  error :: jv
  task :: "Task option"
  reconnectAttempts :: nat
  lastHeartbeat :: int
  connectionTime :: int
  eventSourceRef :: "nat option"
  reconnectTimeoutRef :: "nat option"
  heartbeatTimeoutRef :: "nat option"
  abortControllerRef :: bool
  connectionStartTimeRef :: int
  closedSources :: "nat list"
  timers :: "sse_timer timer_table"
  fresh :: nat
  calls :: "callback list"

definition initialStream :: stream where
  "initialStream =
     \<lparr>progressState = JNull, isConnected = False, isConnecting = False, error = JNull,
      task = None, reconnectAttempts = 0, lastHeartbeat = 0, connectionTime = 0,
      eventSourceRef = None, reconnectTimeoutRef = None, heartbeatTimeoutRef = None,
      abortControllerRef = False, connectionStartTimeRef = 0, closedSources = [],
      timers = [], fresh = 1, calls = []\<rparr>"

definition call :: "callback \<Rightarrow> stream \<Rightarrow> stream" where
  "call c s = s\<lparr>calls := calls s @ [c]\<rparr>"

text \<open>
  Every handler runs to completion as one callback. A handler reads React state from the
  render it was created in, and its \<^verbatim>\<open>setState\<close> calls take effect afterwards; refs change
  at once. So each handler takes the rendered state \<open>r\<close> it reads state variables from and
  the store \<open>s\<close> it updates. What React does between two handlers, the renders and the
  effects they trigger, is \<open>renders\<close> below.
\<close>

definition handleHeartbeat :: "UseTaskStreamOptions \<Rightarrow> int \<Rightarrow> stream \<Rightarrow> stream \<Rightarrow> stream" where
  "handleHeartbeat opt now r s =
     (if enableHeartbeat opt \<and> isConnected r then
        let s1 = s\<lparr>lastHeartbeat := now\<rparr>;
            s2 = s1\<lparr>timers := disarm_ref (heartbeatTimeoutRef s1) (timers s1)\<rparr>;
            h = fresh s2
        in s2\<lparr>timers := arm h HeartbeatTimeout (heartbeatInterval opt * 2) (timers s2),
               fresh := Suc h, heartbeatTimeoutRef := Some h\<rparr>
      else s)"


text \<open>The \<^verbatim>\<open>catch\<close> block of \<open>handleEvent\<close>.\<close>

definition parseFailed :: "stream \<Rightarrow> stream" where
  "parseFailed s =
     call (OnError (JStr ''Failed to parse server event''))
          (s\<lparr>error := JStr ''Failed to parse server event''\<rparr>)"

text \<open>\<^verbatim>\<open>setTask(prev => prev ? f(prev) : null)\<close>\<close>

definition setTask :: "(Task \<Rightarrow> Task) \<Rightarrow> stream \<Rightarrow> stream" where
  "setTask f s = s\<lparr>task := map_option f (task s)\<rparr>"

definition statusUpdate :: "jv \<Rightarrow> jv \<Rightarrow> Task \<Rightarrow> Task" where
  "statusUpdate statusData nowIso prev =
     (let newStatus = field statusData ''status'';
          updated = prev\<lparr>status := newStatus\<rparr>;
          updated1 = (if truthy (field statusData ''errorMessage'')
                      then updated\<lparr>errorMessage := field statusData ''errorMessage''\<rparr>
                      else updated)
      in if newStatus = JStr ''completed''
         then updated1\<lparr>endTime := nowIso, progress := JNum 100\<rparr>
         else if newStatus = JStr ''running'' \<and> \<not> truthy (startTime prev)
         then updated1\<lparr>startTime := nowIso\<rparr>
         else updated1)"

text \<open>
  \<open>handleEvent\<close>: \<open>frame\<close> is what \<^verbatim>\<open>JSON.parse(event.data)\<close> gives, \<open>now\<close> is \<^verbatim>\<open>Date.now()\<close> and
  \<open>nowIso\<close> is \<^verbatim>\<open>new Date().toISOString()\<close>. Each \<^verbatim>\<open>case\<close> that reads a property of
  \<^verbatim>\<open>sseEvent.data\<close> throws when the data is \<^verbatim>\<open>null\<close> or absent, before it has changed
  anything, and the \<^verbatim>\<open>catch\<close> block runs.
\<close>

definition handleEvent ::
  "UseTaskStreamOptions \<Rightarrow> int \<Rightarrow> jv \<Rightarrow> jv option \<Rightarrow> stream \<Rightarrow> stream \<Rightarrow> stream" where
  "handleEvent opt now nowIso frame r s =
     (case frame of
        None \<Rightarrow> parseFailed s
      | Some sseEvent \<Rightarrow>
          if nullish sseEvent then parseFailed s
          else if \<not> truthy (field sseEvent ''type'') \<or> \<not> truthy (field sseEvent ''timestamp'')
          then s
          else
            let ty = field sseEvent ''type''; d = field sseEvent ''data'' in
            if ty = JStr ''progress'' then
              (if truthy d \<and> is_number (field d ''progress'') then
                 let s1 = call (OnProgress d) (s\<lparr>progressState := d\<rparr>) in
                 (case task r of
                    None \<Rightarrow> s1
                  | Some t \<Rightarrow>
                      if strict_neq (progress t) (field d ''progress'')
                      then setTask (\<lambda>prev. prev\<lparr>progress := field d ''progress''\<rparr>) s1
                      else s1)
               else s)
            else if ty = JStr ''status'' then
              (if nullish d then parseFailed s
               else setTask (statusUpdate d nowIso)
                      (call (OnStatusChange (field d ''status'')) s))
            else if ty = JStr ''step'' then
              (if nullish d then parseFailed s
               else if truthy (field d ''step'')
               then setTask (\<lambda>prev. prev\<lparr>currentStep := field d ''step''\<rparr>)
                      (call (OnStepChange (field d ''step'')) s)
               else s)
            else if ty = JStr ''heartbeat'' then handleHeartbeat opt now r s
            else if ty = JStr ''error'' then
              (if nullish d then parseFailed s
               else
                 let msg = js_or (field d ''error'')
                             (js_or (field d ''message'') (JStr ''Unknown error occurred''))
                 in setTask (\<lambda>prev. prev\<lparr>status := JStr ''failed'', errorMessage := msg,
                                          endTime := nowIso\<rparr>)
                      (call (OnError msg) (s\<lparr>error := msg\<rparr>)))
            else if ty = JStr ''completed'' then
              (if nullish d then parseFailed s
               else setTask (\<lambda>prev. prev\<lparr>status := JStr ''completed'', progress := JNum 100,
                                          endTime := js_or (field d ''timestamp'') nowIso,
                                          duration := field d ''duration'',
                                          outputData := field d ''result''\<rparr>)
                      (call (OnCompleted (field d ''result'')) s))
            else s)"


text \<open>\<open>disconnect\<close>: clears both timers, closes the EventSource, aborts the fetch, resets state.\<close>

definition disconnect :: "stream \<Rightarrow> stream" where
  "disconnect s =
     (let s1 = s\<lparr>timers := disarm_ref (reconnectTimeoutRef s) (timers s),
                  reconnectTimeoutRef := None\<rparr>;
          s2 = s1\<lparr>timers := disarm_ref (heartbeatTimeoutRef s1) (timers s1),
                   heartbeatTimeoutRef := None\<rparr>;
          s3 = (case eventSourceRef s2 of
                  None \<Rightarrow> s2
                | Some e \<Rightarrow> s2\<lparr>closedSources := closedSources s2 @ [e],
                                eventSourceRef := None\<rparr>);
          s4 = s3\<lparr>abortControllerRef := False\<rparr>
      in s4\<lparr>isConnected := False, isConnecting := False, lastHeartbeat := 0,
             connectionTime := 0\<rparr>)"

text \<open>
  What \<open>connect\<close> reads from the browser: \<^verbatim>\<open>navigator.onLine\<close>, the configured base URL
  (empty when neither environment variable is set) and whether \<^verbatim>\<open>new EventSource(url)\<close>
  throws (with which message).
\<close>

record environment =
  onLine :: bool
  baseUrl :: string
  sourceThrows :: "string option"

text \<open>The outer \<^verbatim>\<open>catch\<close> block of \<open>connect\<close>.\<close>

definition connectFailed :: "string \<Rightarrow> stream \<Rightarrow> stream" where
  "connectFailed msg s =
     call (OnError (JStr msg))
          (s\<lparr>error := JStr msg, isConnected := False, isConnecting := False\<rparr>)"

text \<open>
  \<open>connect\<close>, up to the creation of the EventSource. The fetch of the initial task that
  follows is asynchronous; its arrival is \<open>initialTaskFetched\<close>.
\<close>

definition connect ::
  "UseTaskStreamOptions \<Rightarrow> environment \<Rightarrow> int \<Rightarrow> stream \<Rightarrow> stream \<Rightarrow> stream" where
  "connect opt env now r s =
     (if taskId opt = [] \<or> isConnecting r then s
      else
        let s1 = disconnect (s\<lparr>isConnecting := True, error := JNull,
                                connectionStartTimeRef := now\<rparr>)
        in if \<not> onLine env then connectFailed ''No network connection available'' s1
           else
             let s2 = s1\<lparr>abortControllerRef := True\<rparr> in
             if baseUrl env = [] then connectFailed ''API URL not configured'' s2
             else (case sourceThrows env of
                     Some m \<Rightarrow> connectFailed m s2
                   | None \<Rightarrow> s2\<lparr>eventSourceRef := Some (fresh s2), fresh := Suc (fresh s2)\<rparr>))"

definition initialTaskFetched :: "Task \<Rightarrow> stream \<Rightarrow> stream" where
  "initialTaskFetched t s = s\<lparr>task := Some t\<rparr>"

text \<open>\<^verbatim>\<open>eventSource.onopen\<close>\<close>

definition onopen :: "UseTaskStreamOptions \<Rightarrow> int \<Rightarrow> stream \<Rightarrow> stream \<Rightarrow> stream" where
  "onopen opt now r s =
     (let s1 = s\<lparr>connectionTime := now - connectionStartTimeRef s, isConnected := True,
                  isConnecting := False, reconnectAttempts := 0, lastHeartbeat := now\<rparr>
      in if enableHeartbeat opt then handleHeartbeat opt now r s1 else s1)"

text \<open>
  The delay computed in \<^verbatim>\<open>eventSource.onerror\<close>:
  \<^verbatim>\<open>Math.min(reconnectInterval * Math.pow(2, currentAttempts), 30000)\<close>. The source computes
  it in double precision; \<open>reconnectDelay\<close> is the same formula in rational numbers. The
  two agree where \<open>exactDelay\<close> holds: the interval is a double, and the power and the
  product are doubles as well, so that \<^verbatim>\<open>Math.pow\<close> (taken to return a power that is a double
  exactly) and the multiplication return them unrounded. Elsewhere the source rounds the
  product, and yields \<^verbatim>\<open>NaN\<close> when the interval is 0 and the power overflows; the model says
  nothing about the delay there.
\<close>

definition reconnectDelay :: "UseTaskStreamOptions \<Rightarrow> nat \<Rightarrow> rat" where
  "reconnectDelay opt currentAttempts =
     min (reconnectInterval opt * 2 ^ currentAttempts) 30000"

definition exactDelay :: "UseTaskStreamOptions \<Rightarrow> nat \<Rightarrow> bool" where
  "exactDelay opt currentAttempts =
     (double (reconnectInterval opt) \<and> double (2 ^ currentAttempts)
      \<and> double (reconnectInterval opt * 2 ^ currentAttempts))"

text \<open>
  \<^verbatim>\<open>eventSource.onerror\<close>; \<open>isClosed\<close> is \<^verbatim>\<open>eventSource.readyState === EventSource.CLOSED\<close>.
\<close>

definition onerror :: "UseTaskStreamOptions \<Rightarrow> bool \<Rightarrow> stream \<Rightarrow> stream \<Rightarrow> stream" where
  "onerror opt isClosed r s =
     (let s1 = s\<lparr>isConnected := False, isConnecting := False\<rparr>;
          currentAttempts = reconnectAttempts r
      in if isClosed then
           if autoReconnect opt \<and> currentAttempts < maxReconnectAttempts opt then
             let nextAttempt = currentAttempts + 1;
                 h = fresh s1
             in s1\<lparr>reconnectAttempts := nextAttempt,
                    timers := arm h (ReconnectTimer nextAttempt)
                                (reconnectDelay opt currentAttempts) (timers s1),
                    fresh := Suc h, reconnectTimeoutRef := Some h\<rparr>
           else
             let errorMsg = (if retryOnNetworkError opt then ''Connection to server lost''
                             else ''Max reconnection attempts reached'')
             in call (OnError (JStr errorMsg)) (s1\<lparr>error := JStr errorMsg\<rparr>)
         else s1)"

text \<open>The callback of the reconnect timer, when it fires.\<close>

definition reconnectTimerFired ::
  "UseTaskStreamOptions \<Rightarrow> environment \<Rightarrow> int \<Rightarrow> nat \<Rightarrow> nat \<Rightarrow> stream \<Rightarrow> stream \<Rightarrow> stream" where
  "reconnectTimerFired opt env now h nextAttempt r s =
     connect opt env now r
       (call (OnRetry nextAttempt (maxReconnectAttempts opt))
             (s\<lparr>timers := disarm h (timers s)\<rparr>))"






text \<open>
  The effect that connects (l.383-390): its body calls \<open>connect\<close> when there is a task id,
  its cleanup is \<open>disconnect\<close>, and its dependencies are \<^verbatim>\<open>[taskId, connect, disconnect]\<close>. React
  runs the body after the first render, and after every later render in which \<open>connect\<close> is
  a new function: first the cleanup of the previous run, then the body, with the \<open>connect\<close>
  of the new render \<open>r\<close>.
\<close>

definition mountEffect ::
  "UseTaskStreamOptions \<Rightarrow> environment \<Rightarrow> int \<Rightarrow> stream \<Rightarrow> stream \<Rightarrow> stream" where
  "mountEffect opt env now r s = (if taskId opt \<noteq> [] then connect opt env now r s else s)"

definition rerunEffect ::
  "UseTaskStreamOptions \<Rightarrow> environment \<Rightarrow> int \<Rightarrow> stream \<Rightarrow> stream \<Rightarrow> stream" where
  "rerunEffect opt env now r s = mountEffect opt env now r (disconnect s)"

text \<open>
  React renders again when a state variable has changed. \<^verbatim>\<open>useCallback\<close> then makes a new
  \<open>connect\<close> when one of its dependencies is a new value: \<open>isConnecting\<close> and
  \<open>reconnectAttempts\<close>; \<open>handleHeartbeat\<close>, which depends on \<open>isConnected\<close> and
  \<open>reconnectAttempts\<close>; \<open>handleEvent\<close>, which depends on \<open>task\<close>, on \<open>handleHeartbeat\<close>
  and on the caller's callbacks. \<open>inlineCallbacks\<close> says that the caller passes callbacks
  that are new functions in every render, as the page that uses the hook does
  (\<^verbatim>\<open>TaskMonitorPage.tsx\<close>): then every render makes a new \<open>connect\<close>. The options keep their
  values. Tasks are compared by value here, React compares the objects.
\<close>

definition stateChanged :: "stream \<Rightarrow> stream \<Rightarrow> bool" where
  "stateChanged r s =
     (progressState r \<noteq> progressState s \<or> isConnected r \<noteq> isConnected s
      \<or> isConnecting r \<noteq> isConnecting s \<or> error r \<noteq> error s \<or> task r \<noteq> task s
      \<or> reconnectAttempts r \<noteq> reconnectAttempts s \<or> lastHeartbeat r \<noteq> lastHeartbeat s
      \<or> connectionTime r \<noteq> connectionTime s)"

definition connectRecreated :: "bool \<Rightarrow> stream \<Rightarrow> stream \<Rightarrow> bool" where
  "connectRecreated inlineCallbacks r s =
     (stateChanged r s
      \<and> (inlineCallbacks \<or> isConnecting r \<noteq> isConnecting s \<or> isConnected r \<noteq> isConnected s
           \<or> reconnectAttempts r \<noteq> reconnectAttempts s \<or> task r \<noteq> task s))"

text \<open>
  The renders that follow a handler, at most \<open>n\<close> of them: \<open>r\<close> is the render before the
  handler ran and \<open>s\<close> the store it left. Each render takes the state of the store; when it
  makes a new \<open>connect\<close> the effect runs again and changes the store, which may cause the
  next render.
\<close>

fun renders ::
  "nat \<Rightarrow> bool \<Rightarrow> UseTaskStreamOptions \<Rightarrow> environment \<Rightarrow> int \<Rightarrow> stream \<Rightarrow> stream \<Rightarrow> stream" where
  "renders 0 inlineCallbacks opt env now r s = s"
| "renders (Suc n) inlineCallbacks opt env now r s =
     (if connectRecreated inlineCallbacks r s
      then renders n inlineCallbacks opt env now s (rerunEffect opt env now s s)
      else s)"

section \<open>The batch hook (useBatchTaskStream)\<close>

record overallStats =
  totalTasks :: nat
  completedTasks :: nat
  failedTasks :: nat
  runningTasks :: nat
  pendingTasks :: nat

text \<open>\<^verbatim>\<open>task?.status === st\<close> for an entry of the record of tasks (\<open>None\<close> is \<^verbatim>\<open>null\<close>).\<close>

definition hasStatus :: "string \<Rightarrow> Task option \<Rightarrow> bool" where
  "hasStatus st t = (case t of None \<Rightarrow> False | Some x \<Rightarrow> status x = JStr st)"

text \<open>
  The effect that computes the statistics from \<^verbatim>\<open>tasks\<close> (a record from task id to task
  or \<^verbatim>\<open>null\<close>, here the list of its entries) and \<^verbatim>\<open>taskIds\<close>.
\<close>

definition computeOverallStats :: "(string \<times> Task option) list \<Rightarrow> string list \<Rightarrow> overallStats" where
  "computeOverallStats tasks taskIds =
     (let taskValues = map snd tasks in
      \<lparr>totalTasks = length taskIds,
       completedTasks = length (filter (hasStatus ''completed'') taskValues),
       failedTasks = length (filter (hasStatus ''failed'') taskValues),
       runningTasks = length (filter (hasStatus ''running'') taskValues),
       pendingTasks = length (filter (hasStatus ''pending'') taskValues)\<rparr>)"

text \<open>
  The hook keeps \<^verbatim>\<open>tasks\<close> in \<^verbatim>\<open>useState({})\<close> and never calls its setter, so the effect
  always runs on the empty record.
\<close>

definition useBatchTaskStream :: "string list \<Rightarrow> overallStats" where
  "useBatchTaskStream taskIds = computeOverallStats [] taskIds"

definition allCompleted :: "overallStats \<Rightarrow> bool" where
  "allCompleted st = (completedTasks st = totalTasks st)"

definition hasErrors :: "overallStats \<Rightarrow> bool" where
  "hasErrors st = (failedTasks st > 0)"

definition isComplete :: "overallStats \<Rightarrow> bool" where
  "isComplete st = (completedTasks st + failedTasks st = totalTasks st)"


section \<open>The WebSocket hook (useWebSocket)\<close>

text \<open>
  The merged configuration (\<^verbatim>\<open>DEFAULT_WEBSOCKET_CONFIG\<close> overridden by the caller's) and the
  options of the hook. \<open>autoReconnect_ws\<close> is \<^verbatim>\<open>config.autoReconnect\<close>, read by \<open>send\<close>;
  \<open>enableAutoReconnect\<close> is the option read by \<open>handleClose\<close>.
\<close>

record UseWebSocketOptions =
  autoReconnect_ws :: bool
  maxReconnectAttempts_ws :: nat
  reconnectInterval_ws :: rat
  reconnectBackoffFactor :: rat
  maxReconnectInterval :: rat
  heartbeatInterval_ws :: rat
  heartbeatTimeout :: rat
  messageTimeout :: rat
  connectionTimeout :: rat
  enableAutoReconnect :: bool
  enableHeartbeat_ws :: bool
  enableStatistics :: bool

definition DEFAULT_WEBSOCKET_CONFIG :: UseWebSocketOptions where
  "DEFAULT_WEBSOCKET_CONFIG =
     \<lparr>autoReconnect_ws = True, maxReconnectAttempts_ws = 5, reconnectInterval_ws = 3000,
      reconnectBackoffFactor = 3 / 2, maxReconnectInterval = 30000,
      heartbeatInterval_ws = 30000, heartbeatTimeout = 5000, messageTimeout = 10000,
      connectionTimeout = 10000, enableAutoReconnect = True, enableHeartbeat_ws = True,
      enableStatistics = True\<rparr>"

datatype WebSocketConnectionStatus =
  Connecting | Connected | Disconnecting | Disconnected | Reconnecting | Error

datatype WebSocketErrorCode = CONNECTION_FAILED | CONNECTION_TIMEOUT

datatype readyState = CONNECTING | OPEN | CLOSING | CLOSED

record ConnectionStatistics =
  totalConnections :: int
  successfulConnections :: int
  failedConnections :: int
  reconnections :: int
  currentConnections :: int
  messagesSent :: nat
  messagesReceived :: nat
  bytesSent :: nat
  bytesReceived :: nat
  totalConnectionTime :: int
  averageConnectionTime :: rat
  connectionErrors :: nat
  messageErrors :: nat
  timeoutErrors :: nat
  authErrors :: nat

definition noStatistics :: ConnectionStatistics where
  "noStatistics =
     \<lparr>totalConnections = 0, successfulConnections = 0, failedConnections = 0,
      reconnections = 0, currentConnections = 0, messagesSent = 0, messagesReceived = 0,
      bytesSent = 0, bytesReceived = 0, totalConnectionTime = 0, averageConnectionTime = 0,
      connectionErrors = 0, messageErrors = 0, timeoutErrors = 0, authErrors = 0\<rparr>"

record ConnectionQuality =
  latency :: real
  packetLoss :: real
  jitter :: real
  bandwidth :: real
  qualityScore :: real

text \<open>An outbound message; \<^verbatim>\<open>if (message.requestId)\<close> holds for a non-empty string.\<close>

record WebSocketMessage =
  mtype :: string
  mdata :: jv
  mtimestamp :: int
  messageId :: string
  requestId :: "string option"

definition wantsReply :: "WebSocketMessage \<Rightarrow> string option" where
  "wantsReply m = (case requestId m of None \<Rightarrow> None | Some k \<Rightarrow> if k = [] then None else Some k)"

text \<open>
  The promise returned by \<open>send\<close> is known by a number; \<open>settled\<close> records how each promise
  was settled. Settling a promise a second time has no effect.
\<close>

datatype settlement = Resolved | Rejected jv

record pending =
  pmessage :: WebSocketMessage
  ppromise :: nat
  ptimeout :: nat

datatype ws_timer =
    ReconnectTimeout
  | HeartbeatInterval
  | PingTimeout int
  | ConnectionTimeout
  | MessageTimeout string nat

datatype ws_callback =
    OnOpen
  | OnClose nat string bool
  | OnError_ws
  | OnMessage jv
  | OnReconnect nat nat
  | OnHeartbeat int
  | OnConnectionQualityChange ConnectionQuality

text \<open>
  The state and the refs of the hook. \<open>wsRef\<close> is the \<^verbatim>\<open>readyState\<close> of the socket in
  \<^verbatim>\<open>wsRef.current\<close> (\<open>None\<close> when the ref is \<^verbatim>\<open>null\<close>); \<open>sent\<close> lists what was written to the
  socket; \<open>closeCalls\<close> lists the calls of the socket's \<^verbatim>\<open>close\<close>, each with its code and
  reason (\<open>None\<close> for \<^verbatim>\<open>close()\<close>); \<open>pendingMessagesRef\<close> lists the entries of the Map.
\<close>

record socket =
  status_ws :: WebSocketConnectionStatus
  isConnected_ws :: bool
  isConnecting_ws :: bool
  error_ws :: "(WebSocketErrorCode \<times> string) option"
  connectTime :: "int option"
  lastMessageTime :: "int option"
  statistics :: ConnectionStatistics
  quality :: ConnectionQuality
  wsRef :: "readyState option"
  reconnectTimeoutRef_ws :: "nat option"
  heartbeatIntervalRef :: "nat option"
  heartbeatTimeoutRef_ws :: "nat option"
  pingTimeoutRef :: "nat option"
  messageQueueRef :: "WebSocketMessage list"
  pendingMessagesRef :: "(string \<times> pending) list"
  connectionStartTimeRef_ws :: int
  lastHeartbeatTimeRef :: int
  latencyMeasurementsRef :: "int list"
  reconnectAttemptsRef :: nat
  abortControllerRef_ws :: bool
  timers_ws :: "ws_timer timer_table"
  fresh_ws :: nat
  sent :: "WebSocketMessage list"
  closeCalls :: "(nat \<times> string) option list"
  settled :: "(nat \<times> settlement) list"
  promises :: nat
  calls_ws :: "ws_callback list"

definition initialSocket :: socket where
  "initialSocket =
     \<lparr>status_ws = Disconnected, isConnected_ws = False, isConnecting_ws = False,
      error_ws = None, connectTime = None, lastMessageTime = None,
      statistics = noStatistics,
      quality = \<lparr>latency = 0, packetLoss = 0, jitter = 0, bandwidth = 0, qualityScore = 100\<rparr>,
      wsRef = None, reconnectTimeoutRef_ws = None, heartbeatIntervalRef = None,
      heartbeatTimeoutRef_ws = None, pingTimeoutRef = None, messageQueueRef = [],
      pendingMessagesRef = [], connectionStartTimeRef_ws = 0, lastHeartbeatTimeRef = 0,
      latencyMeasurementsRef = [], reconnectAttemptsRef = 0, abortControllerRef_ws = False,
      timers_ws = [], fresh_ws = 1, sent = [], closeCalls = [], settled = [], promises = 0,
      calls_ws = []\<rparr>"

definition call_ws :: "ws_callback \<Rightarrow> socket \<Rightarrow> socket" where
  "call_ws c s = s\<lparr>calls_ws := calls_ws s @ [c]\<rparr>"

definition settle :: "nat \<Rightarrow> settlement \<Rightarrow> socket \<Rightarrow> socket" where
  "settle p out s =
     (if map_of (settled s) p = None then s\<lparr>settled := settled s @ [(p, out)]\<rparr> else s)"

text \<open>\<^verbatim>\<open>setTimeout(cb, d)\<close> and \<^verbatim>\<open>setInterval(cb, d)\<close>: the handle and the new state.\<close>

definition setTimer :: "ws_timer \<Rightarrow> rat \<Rightarrow> socket \<Rightarrow> nat \<times> socket" where
  "setTimer k d s =
     (fresh_ws s, s\<lparr>timers_ws := arm (fresh_ws s) k d (timers_ws s), fresh_ws := Suc (fresh_ws s)\<rparr>)"

definition updateStatistics ::
  "UseWebSocketOptions \<Rightarrow> (ConnectionStatistics \<Rightarrow> ConnectionStatistics) \<Rightarrow> socket \<Rightarrow> socket" where
  "updateStatistics opt updateFn s =
     (if enableStatistics opt then s\<lparr>statistics := updateFn (statistics s)\<rparr> else s)"

text \<open>\<open>updateQuality\<close>: keeps the last ten latencies; mean, sample deviation, score.\<close>

definition qualityOf :: "int list \<Rightarrow> ConnectionQuality" where
  "qualityOf ms =
     (let avgLatency = real_of_int (sum_list ms) / real (length ms);
          jit = (if length ms > 1
                 then sqrt (sum_list (map (\<lambda>l. (real_of_int l - avgLatency) ^ 2) ms)
                            / real (length ms - 1))
                 else 0)
      in \<lparr>latency = avgLatency, packetLoss = 0, jitter = jit, bandwidth = 0,
          qualityScore = max 0 (100 - avgLatency / 10 - jit / 5)\<rparr>)"

definition updateQuality :: "int \<Rightarrow> socket \<Rightarrow> socket" where
  "updateQuality lat s =
     (let ms = latencyMeasurementsRef s @ [lat];
          ms1 = (if length ms > 10 then tl ms else ms);
          newQuality = qualityOf ms1
      in call_ws (OnConnectionQualityChange newQuality)
           (s\<lparr>latencyMeasurementsRef := ms1, quality := newQuality\<rparr>))"

definition stopHeartbeat :: "socket \<Rightarrow> socket" where
  "stopHeartbeat s =
     (let s1 = s\<lparr>timers_ws := disarm_ref (heartbeatIntervalRef s) (timers_ws s),
                  heartbeatIntervalRef := None\<rparr>;
          s2 = s1\<lparr>timers_ws := disarm_ref (heartbeatTimeoutRef_ws s1) (timers_ws s1),
                   heartbeatTimeoutRef_ws := None\<rparr>
      in s2\<lparr>timers_ws := disarm_ref (pingTimeoutRef s2) (timers_ws s2),
             pingTimeoutRef := None\<rparr>)"

definition startHeartbeat :: "UseWebSocketOptions \<Rightarrow> socket \<Rightarrow> socket" where
  "startHeartbeat opt s =
     (if \<not> enableHeartbeat_ws opt then s
      else let (h, s1) = setTimer HeartbeatInterval (heartbeatInterval_ws opt) s
           in s1\<lparr>heartbeatIntervalRef := Some h\<rparr>)"

text \<open>
  \<open>handleHeartbeat\<close> of this hook, the callback of the heartbeat interval: sends a
  \<^verbatim>\<open>heartbeat\<close> message (\<open>mid\<close> is its random id, \<open>sendThrows\<close> whether the socket's
  \<^verbatim>\<open>send\<close> throws) and arms the ping timer.
\<close>

definition handleHeartbeat_ws ::
  "UseWebSocketOptions \<Rightarrow> int \<Rightarrow> string \<Rightarrow> bool \<Rightarrow> socket \<Rightarrow> socket" where
  "handleHeartbeat_ws opt now mid sendThrows s =
     (if wsRef s \<noteq> Some OPEN then s
      else if sendThrows
      then s\<lparr>error_ws := Some (CONNECTION_TIMEOUT, ''Heartbeat failed'')\<rparr>
      else
        let pingMessage = \<lparr>mtype = ''heartbeat'', mdata = JObj [(''timestamp'', JNum (of_int now))],
                           mtimestamp = now, messageId = mid, requestId = None\<rparr>;
            (h, s1) = setTimer (PingTimeout now) (heartbeatTimeout opt)
                        (s\<lparr>sent := sent s @ [pingMessage]\<rparr>)
        in s1\<lparr>pingTimeoutRef := Some h\<rparr>)"

text \<open>
  The callback of the ping timer. After \<open>updateQuality\<close> it calls
  \<^verbatim>\<open>setLastHeartbeatTime\<close>, which the hook does not define: the call throws and the rest
  of the callback does not run.
\<close>

definition pingTimeoutFired :: "nat \<Rightarrow> int \<Rightarrow> int \<Rightarrow> socket \<Rightarrow> socket" where
  "pingTimeoutFired h pingStart now s =
     updateQuality (now - pingStart) (s\<lparr>timers_ws := disarm h (timers_ws s)\<rparr>)"

text \<open>
  \<open>handleOpen\<close>. The queued messages are written to the socket in queue order; a write
  that throws is logged and the message is lost, and the queue is emptied either way.
\<close>

definition handleOpen :: "UseWebSocketOptions \<Rightarrow> int \<Rightarrow> socket \<Rightarrow> socket" where
  "handleOpen opt now s =
     (let connectionDuration = now - connectionStartTimeRef_ws s;
          s1 = s\<lparr>connectTime := Some now, status_ws := Connected, isConnected_ws := True,
                  isConnecting_ws := False, error_ws := None, reconnectAttemptsRef := 0\<rparr>;
          s2 = updateStatistics opt
                 (\<lambda>stats.
                    let t = totalConnectionTime stats + connectionDuration;
                        n = totalConnections stats + 1
                    in stats\<lparr>successfulConnections := successfulConnections stats + 1,
                             totalConnections := n,
                             currentConnections := currentConnections stats + 1,
                             totalConnectionTime := t,
                             averageConnectionTime := of_int t / of_int n\<rparr>) s1;
          s3 = (if wsRef s2 = Some OPEN
                then s2\<lparr>sent := sent s2 @ messageQueueRef s2, messageQueueRef := []\<rparr>
                else s2\<lparr>messageQueueRef := []\<rparr>)
      in call_ws OnOpen (startHeartbeat opt s3))"

text \<open>
  The delay computed by \<open>handleReconnect\<close> for the attempt number it has just
  incremented to:
  \<^verbatim>\<open>Math.min(reconnectInterval * Math.pow(reconnectBackoffFactor, attempts - 1), maxReconnectInterval)\<close>.
  As in the task stream hook, the source computes it in double precision and
  \<open>reconnectDelay_ws\<close> is the formula in rational numbers; they agree where \<open>exactDelay_ws\<close>
  holds (the three configured numbers, the power and the product are doubles), and the
  model says nothing about the delay elsewhere.
\<close>

definition reconnectDelay_ws :: "UseWebSocketOptions \<Rightarrow> nat \<Rightarrow> rat" where
  "reconnectDelay_ws opt attempt =
     min (reconnectInterval_ws opt * reconnectBackoffFactor opt ^ (attempt - 1))
         (maxReconnectInterval opt)"

definition exactDelay_ws :: "UseWebSocketOptions \<Rightarrow> nat \<Rightarrow> bool" where
  "exactDelay_ws opt attempt =
     (double (reconnectInterval_ws opt) \<and> double (reconnectBackoffFactor opt)
      \<and> double (maxReconnectInterval opt)
      \<and> double (reconnectBackoffFactor opt ^ (attempt - 1))
      \<and> double (reconnectInterval_ws opt * reconnectBackoffFactor opt ^ (attempt - 1)))"

definition handleReconnect :: "UseWebSocketOptions \<Rightarrow> socket \<Rightarrow> socket" where
  "handleReconnect opt s =
     (let s1 = s\<lparr>reconnectAttemptsRef := reconnectAttemptsRef s + 1\<rparr>;
          delay = reconnectDelay_ws opt (reconnectAttemptsRef s1);
          s2 = call_ws (OnReconnect (reconnectAttemptsRef s1) (maxReconnectAttempts_ws opt))
                 (s1\<lparr>status_ws := Reconnecting\<rparr>);
          (h, s3) = setTimer ReconnectTimeout delay s2
      in s3\<lparr>reconnectTimeoutRef_ws := Some h\<rparr>)"

text \<open>\<open>handleClose\<close>; the close event carries \<^verbatim>\<open>code\<close>, \<^verbatim>\<open>reason\<close> and \<^verbatim>\<open>wasClean\<close>.\<close>

definition handleClose ::
  "UseWebSocketOptions \<Rightarrow> int \<Rightarrow> nat \<times> string \<times> bool \<Rightarrow> socket \<Rightarrow> socket" where
  "handleClose opt now event s =
     (let (code, reason, wasClean) = event;
          connectionDuration = now - connectionStartTimeRef_ws s;
          s1 = s\<lparr>status_ws := Disconnected, isConnected_ws := False, isConnecting_ws := False\<rparr>;
          s2 = updateStatistics opt
                 (\<lambda>stats.
                    let t = totalConnectionTime stats + connectionDuration
                    in stats\<lparr>currentConnections := currentConnections stats - 1,
                             totalConnectionTime := t,
                             averageConnectionTime :=
                               of_int t / of_int (max 1 (totalConnections stats))\<rparr>) s1;
          s3 = call_ws (OnClose code reason wasClean) (stopHeartbeat s2)
      in if enableAutoReconnect opt \<and> \<not> wasClean
            \<and> reconnectAttemptsRef s3 < maxReconnectAttempts_ws opt
         then handleReconnect opt s3
         else s3)"

definition handleError :: "UseWebSocketOptions \<Rightarrow> socket \<Rightarrow> socket" where
  "handleError opt s =
     call_ws OnError_ws
       (updateStatistics opt (\<lambda>stats. stats\<lparr>connectionErrors := connectionErrors stats + 1\<rparr>)
          (s\<lparr>status_ws := Error, isConnecting_ws := False, isConnected_ws := False,
             error_ws := Some (CONNECTION_FAILED, ''WebSocket connection failed'')\<rparr>))"


text \<open>The type guard \<open>isWebSocketMessage\<close> of the shared constants.\<close>

definition isWebSocketMessage :: "jv \<Rightarrow> bool" where
  "isWebSocketMessage obj =
     (truthy obj \<and> is_object obj \<and> is_string (field obj ''type'')
      \<and> is_number (field obj ''timestamp'') \<and> is_string (field obj ''messageId''))"

text \<open>\<^verbatim>\<open>pendingMessagesRef.current\<close>: \<^verbatim>\<open>get\<close>, \<^verbatim>\<open>set\<close> and \<^verbatim>\<open>delete\<close> of the Map.\<close>

definition pendingGet :: "jv \<Rightarrow> (string \<times> pending) list \<Rightarrow> (string \<times> pending) option" where
  "pendingGet k m =
     (case k of
        JStr key \<Rightarrow> (case map_of m key of None \<Rightarrow> None | Some p \<Rightarrow> Some (key, p))
      | _ \<Rightarrow> None)"

definition pendingDelete :: "string \<Rightarrow> (string \<times> pending) list \<Rightarrow> (string \<times> pending) list" where
  "pendingDelete key m = filter (\<lambda>e. fst e \<noteq> key) m"

definition pendingSet ::
  "string \<Rightarrow> pending \<Rightarrow> (string \<times> pending) list \<Rightarrow> (string \<times> pending) list" where
  "pendingSet key p m = pendingDelete key m @ [(key, p)]"

text \<open>
  \<open>handleMessage\<close>: \<open>parsed\<close> is what \<^verbatim>\<open>JSON.parse(event.data)\<close> gives (\<open>None\<close> when it
  throws, which the \<^verbatim>\<open>catch\<close> block handles) and \<open>len\<close> is \<^verbatim>\<open>event.data.length\<close>.
\<close>

definition handleMessage ::
  "UseWebSocketOptions \<Rightarrow> int \<Rightarrow> jv option \<times> nat \<Rightarrow> socket \<Rightarrow> socket" where
  "handleMessage opt now event s =
     (let (parsed, len) = event;
          s0 = s\<lparr>lastMessageTime := Some now\<rparr>
      in case parsed of
           None \<Rightarrow>
             updateStatistics opt (\<lambda>stats. stats\<lparr>messageErrors := messageErrors stats + 1\<rparr>) s0
         | Some message \<Rightarrow>
             if \<not> isWebSocketMessage message then s0
             else
               let s1 = updateStatistics opt
                          (\<lambda>stats. stats\<lparr>messagesReceived := messagesReceived stats + 1,
                                           bytesReceived := bytesReceived stats + len\<rparr>) s0
               in if field message ''type'' = JStr ''pong'' then
                    let lat = now - lastHeartbeatTimeRef s1
                    in call_ws (OnHeartbeat lat) (updateQuality lat s1)
                  else
                    (case (if truthy (field message ''requestId'')
                           then pendingGet (field message ''requestId'') (pendingMessagesRef s1)
                           else None) of
                       Some (key, p) \<Rightarrow>
                         let s2 = s1\<lparr>timers_ws := disarm (ptimeout p) (timers_ws s1),
                                      pendingMessagesRef := pendingDelete key (pendingMessagesRef s1)\<rparr>
                         in if truthy (field message ''error'')
                            then settle (ppromise p)
                                   (Rejected (field (field message ''error'') ''message'')) s2
                            else settle (ppromise p) Resolved s2
                     | None \<Rightarrow> call_ws (OnMessage message) s1))"

text \<open>
  \<open>connect\<close> of this hook. \<open>ctorThrows\<close> says whether \<^verbatim>\<open>new WebSocket(url)\<close> throws. The
  handle of the connection timer is not kept.
\<close>

definition connect_ws :: "UseWebSocketOptions \<Rightarrow> int \<Rightarrow> bool \<Rightarrow> socket \<Rightarrow> socket \<Rightarrow> socket" where
  "connect_ws opt now ctorThrows r s =
     (if wsRef s = Some OPEN then s
      else if isConnecting_ws r then s
      else
        let s1 = s\<lparr>isConnecting_ws := True, status_ws := Connecting,
                    connectionStartTimeRef_ws := now, abortControllerRef_ws := True\<rparr>
        in if ctorThrows then
             updateStatistics opt
               (\<lambda>stats. stats\<lparr>failedConnections := failedConnections stats + 1\<rparr>)
               (s1\<lparr>isConnecting_ws := False, status_ws := Error,
                   error_ws := Some (CONNECTION_FAILED, ''Failed to create WebSocket connection'')\<rparr>)
           else snd (setTimer ConnectionTimeout (connectionTimeout opt)
                       (s1\<lparr>wsRef := Some CONNECTING\<rparr>)))"

text \<open>The callback of the connection timer: closes a socket that is still connecting.\<close>

definition connectionTimeoutFired :: "nat \<Rightarrow> socket \<Rightarrow> socket" where
  "connectionTimeoutFired h s =
     (let s1 = s\<lparr>timers_ws := disarm h (timers_ws s)\<rparr>
      in if wsRef s1 = Some CONNECTING
         then s1\<lparr>wsRef := Some CLOSING, closeCalls := closeCalls s1 @ [None],
                 error_ws := Some (CONNECTION_TIMEOUT, ''Connection timeout'')\<rparr>
         else s1)"

text \<open>The callback of the reconnect timer: \<^verbatim>\<open>connect()\<close>.\<close>

definition reconnectTimeoutFired ::
  "UseWebSocketOptions \<Rightarrow> int \<Rightarrow> bool \<Rightarrow> nat \<Rightarrow> socket \<Rightarrow> socket \<Rightarrow> socket" where
  "reconnectTimeoutFired opt now ctorThrows h r s =
     connect_ws opt now ctorThrows r (s\<lparr>timers_ws := disarm h (timers_ws s)\<rparr>)"

text \<open>
  \<open>disconnect\<close> of this hook. When \<^verbatim>\<open>wsRef.current\<close> holds a socket it calls
  \<^verbatim>\<open>close(1000, 'Disconnected by user')\<close> on it and clears the ref.
\<close>

definition disconnect_ws :: "socket \<Rightarrow> socket" where
  "disconnect_ws s =
     (let s1 = s\<lparr>timers_ws := disarm_ref (reconnectTimeoutRef_ws s) (timers_ws s),
                  reconnectTimeoutRef_ws := None\<rparr>;
          s2 = stopHeartbeat (s1\<lparr>abortControllerRef_ws := False\<rparr>);
          s3 = (case wsRef s2 of
                  None \<Rightarrow> s2
                | Some st \<Rightarrow>
                    s2\<lparr>closeCalls := closeCalls s2 @ [Some (1000, ''Disconnected by user'')],
                       wsRef := None\<rparr>)
      in s3\<lparr>status_ws := Disconnected, isConnected_ws := False, isConnecting_ws := False,
             error_ws := None\<rparr>)"

definition reconnect_ws :: "UseWebSocketOptions \<Rightarrow> int \<Rightarrow> bool \<Rightarrow> socket \<Rightarrow> socket \<Rightarrow> socket" where
  "reconnect_ws opt now ctorThrows r s =
     connect_ws opt now ctorThrows r ((disconnect_ws s)\<lparr>reconnectAttemptsRef := 0\<rparr>)"

text \<open>
  \<open>send\<close>: returns the promise and the new state. \<open>len\<close> is the length of the serialised
  message; \<open>sendThrows\<close> is the value thrown by \<^verbatim>\<open>JSON.stringify\<close> or by the socket's
  \<^verbatim>\<open>send\<close>, if one of them throws.
\<close>

definition send ::
  "UseWebSocketOptions \<Rightarrow> nat \<Rightarrow> jv option \<Rightarrow> WebSocketMessage \<Rightarrow> socket \<Rightarrow> nat \<times> socket" where
  "send opt len sendThrows message s =
     (let p = promises s; s0 = s\<lparr>promises := Suc p\<rparr> in
      if wsRef s0 \<noteq> Some OPEN then
        (if autoReconnect_ws opt
         then (p, settle p (Rejected (JStr ''WebSocket not connected - message queued''))
                    (s0\<lparr>messageQueueRef := messageQueueRef s0 @ [message]\<rparr>))
         else (p, settle p (Rejected (JStr ''WebSocket not connected'')) s0))
      else
        (case sendThrows of
           Some err \<Rightarrow>
             (p, settle p (Rejected err)
                   (updateStatistics opt
                      (\<lambda>stats. stats\<lparr>messageErrors := messageErrors stats + 1\<rparr>) s0))
         | None \<Rightarrow>
             let s1 = updateStatistics opt
                        (\<lambda>stats. stats\<lparr>messagesSent := messagesSent stats + 1,
                                         bytesSent := bytesSent stats + len\<rparr>)
                        (s0\<lparr>sent := sent s0 @ [message]\<rparr>)
             in (case wantsReply message of
                   Some key \<Rightarrow>
                     let (h, s2) = setTimer (MessageTimeout key p) (messageTimeout opt) s1
                     in (p, s2\<lparr>pendingMessagesRef :=
                                 pendingSet key \<lparr>pmessage = message, ppromise = p, ptimeout = h\<rparr>
                                   (pendingMessagesRef s2)\<rparr>)
                 | None \<Rightarrow> (p, settle p Resolved s1))))"

text \<open>The callback of the timer armed by \<open>send\<close> for a message with a request id.\<close>

definition messageTimeoutFired :: "nat \<Rightarrow> string \<Rightarrow> nat \<Rightarrow> socket \<Rightarrow> socket" where
  "messageTimeoutFired h key p s =
     (let s1 = s\<lparr>timers_ws := disarm h (timers_ws s)\<rparr>
      in if map_of (pendingMessagesRef s1) key \<noteq> None
         then settle p (Rejected (JStr ''Message timeout''))
                (s1\<lparr>pendingMessagesRef := pendingDelete key (pendingMessagesRef s1)\<rparr>)
         else s1)"


section \<open>Repeated connection failures\<close>

text \<open>
  One failed connection of the WebSocket hook, as the browser delivers it: the socket
  goes to \<^verbatim>\<open>CLOSED\<close>, the error event and then a close event that is not clean arrive, and
  if the reconnect timer is then armed it fires and calls \<open>connect\<close>.
\<close>

definition connectionLost :: "UseWebSocketOptions \<Rightarrow> int \<Rightarrow> socket \<Rightarrow> socket" where
  "connectionLost opt now s =
     (let s1 = handleClose opt now (1006, [], False)
                 (handleError opt (s\<lparr>wsRef := map_option (\<lambda>st. CLOSED) (wsRef s)\<rparr>))
      in case reconnectTimeoutRef_ws s1 of
           None \<Rightarrow> s1
         | Some h \<Rightarrow>
             (case map_of (timers_ws s1) h of
                Some (ReconnectTimeout, d) \<Rightarrow> reconnectTimeoutFired opt now False h s1 s1
              | _ \<Rightarrow> s1))"

fun isOnReconnect :: "ws_callback \<Rightarrow> bool" where
  "isOnReconnect (OnReconnect a m) = True"
| "isOnReconnect c = False"

text \<open>How many reconnects the WebSocket hook has scheduled (it calls \<^verbatim>\<open>onReconnect\<close> for each).\<close>

definition scheduled_ws :: "socket \<Rightarrow> nat" where
  "scheduled_ws s = length (filter isOnReconnect (calls_ws s))"

text \<open>
  One failed connection of the task stream hook: the EventSource reports an error in
  state \<^verbatim>\<open>CLOSED\<close> to the handler of the latest render, and React renders. When \<open>onerror\<close>
  has changed the attempt counter, \<open>connect\<close> is a new function, so the effect runs again:
  its cleanup clears the reconnect timer that \<open>onerror\<close> has just armed, and its body
  connects at once.
\<close>

definition streamLost ::
  "bool \<Rightarrow> UseTaskStreamOptions \<Rightarrow> environment \<Rightarrow> int \<Rightarrow> stream \<Rightarrow> stream" where
  "streamLost inlineCallbacks opt env now s =
     renders 3 inlineCallbacks opt env now s (onerror opt True s s)"

text \<open>
  No reconnect timer is armed and every armed timer has a handle the runtime has already
  handed out. This holds between two connection failures.
\<close>

definition quiet_ws :: "socket \<Rightarrow> bool" where
  "quiet_ws s = (ReconnectTimeout \<notin> set (kinds (timers_ws s))
                   \<and> (\<forall>t \<in> set (timers_ws s). fst t < fresh_ws s))"

section \<open>Vocabulary of the specification and concrete inputs\<close>

text \<open>The statuses the specification calls terminal. The hooks have no such notion.\<close>

definition terminal :: "Task \<Rightarrow> bool" where
  "terminal t =
     (status t = JStr ''completed'' \<or> status t = JStr ''failed'' \<or> status t = JStr ''cancelled'')"

text \<open>The \<^verbatim>\<open>type\<close> of a frame, \<open>JUndefined\<close> when the frame has none.\<close>

definition eventType :: "jv option \<Rightarrow> jv" where
  "eventType frame = (case frame of None \<Rightarrow> JUndefined | Some ev \<Rightarrow> field ev ''type'')"

text \<open>A task record that one of the four counts of the statistics counts.\<close>

definition counted :: "Task option \<Rightarrow> bool" where
  "counted t =
     (hasStatus ''pending'' t \<or> hasStatus ''running'' t \<or> hasStatus ''completed'' t
      \<or> hasStatus ''failed'' t)"

text \<open>A well-formed SSE frame of a given type with given data.\<close>

definition sseEvent :: "string \<Rightarrow> jv \<Rightarrow> jv" where
  "sseEvent ty d =
     JObj [(''type'', JStr ty), (''data'', d), (''timestamp'', JNum 1700000000000),
           (''taskId'', JStr ''task-1'')]"

definition sseFrame :: "string \<Rightarrow> jv \<Rightarrow> jv option" where
  "sseFrame ty d = Some (sseEvent ty d)"

definition doneTask :: Task where
  "doneTask =
     \<lparr>status = JStr ''completed'', progress = JNum 100, currentStep = JStr ''publishing'',
      errorMessage = JUndefined, startTime = JStr ''2024-01-01T00:00:00.000Z'',
      endTime = JStr ''2024-01-01T00:05:00.000Z'', duration = JUndefined,
      outputData = JUndefined\<rparr>"

text \<open>A task that is waiting in the queue.\<close>

definition queuedTask :: Task where
  "queuedTask =
     \<lparr>status = JStr ''queued'', progress = JNum 0, currentStep = JUndefined,
      errorMessage = JUndefined, startTime = JUndefined, endTime = JUndefined,
      duration = JUndefined, outputData = JUndefined\<rparr>"

definition doneStream :: stream where
  "doneStream = initialStream\<lparr>task := Some doneTask\<rparr>"

definition workingEnvironment :: environment where
  "workingEnvironment = \<lparr>onLine = True, baseUrl = ''https://api.example'', sourceThrows = None\<rparr>"

text \<open>
  The hook after its first render and the first run of the effect: the first EventSource
  is connecting. Its handlers belong to the first render, whose state is that of
  \<open>initialStream\<close>.
\<close>

definition mountedStream :: "UseTaskStreamOptions \<Rightarrow> stream" where
  "mountedStream opt = mountEffect opt workingEnvironment 0 initialStream initialStream"

text \<open>
  The first EventSource has opened at time 100 and React has rendered, with a caller like
  \<^verbatim>\<open>TaskMonitorPage\<close>. \<open>onopen\<close> has set \<open>isConnected\<close>, so the effect has closed the source that
  had just opened and has opened a second one; its cleanup has reset \<open>isConnected\<close>, so
  the effect has run once more: two sources are closed, the third is connecting, and the
  state variables are those of the render that made its handlers.
\<close>

definition openedStream :: "UseTaskStreamOptions \<Rightarrow> stream" where
  "openedStream opt =
     renders 3 True opt workingEnvironment 110 initialStream
       (onopen opt 100 initialStream (mountedStream opt))"

text \<open>The heartbeat interval of ten seconds of the example in the specification.\<close>

definition tenSecondOptions :: UseTaskStreamOptions where
  "tenSecondOptions = (defaultOptions ''task-1'')\<lparr>heartbeatInterval := 10000\<rparr>"

text \<open>
  The hook after \<open>n\<close> EventSources in a row have failed, the first being the one of
  \<open>mountedStream\<close>.
\<close>

definition failedStream :: "nat \<Rightarrow> UseTaskStreamOptions \<Rightarrow> stream" where
  "failedStream n opt = (streamLost True opt workingEnvironment 10 ^^ n) (mountedStream opt)"

text \<open>A socket that was connected at time 0 and opened at time 10.\<close>

definition openSocket :: socket where
  "openSocket =
     (let s1 = connect_ws DEFAULT_WEBSOCKET_CONFIG 0 False initialSocket initialSocket
      in handleOpen DEFAULT_WEBSOCKET_CONFIG 10 (s1\<lparr>wsRef := Some OPEN\<rparr>))"

definition requestMessage :: WebSocketMessage where
  "requestMessage =
     \<lparr>mtype = ''task_update'', mdata = JNull, mtimestamp = 20, messageId = ''20_abc'',
      requestId = Some ''req-1''\<rparr>"

text \<open>An open socket on which a request that expects a reply has been sent.\<close>

definition requestInFlight :: socket where
  "requestInFlight = snd (send DEFAULT_WEBSOCKET_CONFIG 64 None requestMessage openSocket)"

definition pongMessage :: jv where
  "pongMessage =
     JObj [(''type'', JStr ''pong''), (''timestamp'', JNum 1700000000000),
           (''messageId'', JStr ''1700000000000_xyz'')]"


text \<open>A frame that parses but has neither \<^verbatim>\<open>timestamp\<close> nor \<^verbatim>\<open>messageId\<close>.\<close>

definition untimedFrame :: jv where
  "untimedFrame = JObj [(''type'', JStr ''task_update''), (''data'', JObj [(''progress'', JNum 40)])]"

section \<open>Basic facts about the handlers\<close>

lemma handleHeartbeat_task: "task (handleHeartbeat opt now r s) = task s"
  by (simp add: handleHeartbeat_def Let_def)

lemma parseFailed_task: "task (parseFailed s) = task s"
  by (simp add: parseFailed_def call_def)

lemma disarm_ref_filter:
  "disarm_ref r tbl = filter (\<lambda>t. Some (fst t) \<noteq> r) tbl"
  by (cases r) (simp_all add: disarm_ref_def disarm_def)

lemma disconnect_effect:
  "eventSourceRef (disconnect s) = None \<and> \<not> isConnected (disconnect s)
   \<and> \<not> isConnecting (disconnect s) \<and> reconnectTimeoutRef (disconnect s) = None
   \<and> heartbeatTimeoutRef (disconnect s) = None
   \<and> reconnectAttempts (disconnect s) = reconnectAttempts s
   \<and> fresh (disconnect s) = fresh s
   \<and> closedSources (disconnect s)
       = closedSources s @ (case eventSourceRef s of None \<Rightarrow> [] | Some e \<Rightarrow> [e])"
  by (simp add: disconnect_def Let_def split: option.splits)

lemma connect_effect:
  assumes "taskId opt \<noteq> []" "\<not> isConnecting r" "onLine env" "baseUrl env \<noteq> []"
    "sourceThrows env = None"
  shows "eventSourceRef (connect opt env now r s) = Some (fresh s)
     \<and> reconnectAttempts (connect opt env now r s) = reconnectAttempts s
     \<and> \<not> isConnected (connect opt env now r s)"
  using assms by (simp add: connect_def Let_def disconnect_effect)

text \<open>
  The states of the running hook that the examples below start from: after the first
  effect run, after \<open>n\<close> failed EventSources, and after the first EventSource has opened.
  No reconnect timer survives a failure, and \<^verbatim>\<open>onRetry\<close> is never called: the effect clears
  the timer as soon as \<open>onerror\<close> has armed it.
\<close>

lemma mountedStream_state:
  "mountedStream (defaultOptions ''task-1'') =
     \<lparr>progressState = JNull, isConnected = False, isConnecting = False, error = JNull,
      task = None, reconnectAttempts = 0, lastHeartbeat = 0, connectionTime = 0,
      eventSourceRef = Some 1, reconnectTimeoutRef = None, heartbeatTimeoutRef = None,
      abortControllerRef = True, connectionStartTimeRef = 0, closedSources = [],
      timers = [], fresh = 2, calls = []\<rparr>"
  by code_simp

lemma streamLost_connecting:
  assumes "k < 5"
  shows "streamLost True (defaultOptions ''task-1'') workingEnvironment 10
     \<lparr>progressState = JNull, isConnected = False, isConnecting = False, error = JNull,
      task = None, reconnectAttempts = k, lastHeartbeat = 0, connectionTime = 0,
      eventSourceRef = Some e, reconnectTimeoutRef = None, heartbeatTimeoutRef = None,
      abortControllerRef = True, connectionStartTimeRef = c, closedSources = cs,
      timers = [], fresh = f, calls = []\<rparr>
   = \<lparr>progressState = JNull, isConnected = False, isConnecting = False, error = JNull,
      task = None, reconnectAttempts = Suc k, lastHeartbeat = 0, connectionTime = 0,
      eventSourceRef = Some (Suc f), reconnectTimeoutRef = None, heartbeatTimeoutRef = None,
      abortControllerRef = True, connectionStartTimeRef = 10, closedSources = cs @ [e],
      timers = [], fresh = Suc (Suc f), calls = []\<rparr>"
  using assms
  by (simp add: streamLost_def eval_nat_numeral onerror_def Let_def arm_def
        connectRecreated_def stateChanged_def rerunEffect_def mountEffect_def connect_def
        disconnect_def disarm_ref_def disarm_def defaultOptions_def workingEnvironment_def)

lemma failedStream_state:
  "failedStream 3 (defaultOptions ''task-1'') =
     \<lparr>progressState = JNull, isConnected = False, isConnecting = False, error = JNull,
      task = None, reconnectAttempts = 3, lastHeartbeat = 0, connectionTime = 0,
      eventSourceRef = Some 7, reconnectTimeoutRef = None, heartbeatTimeoutRef = None,
      abortControllerRef = True, connectionStartTimeRef = 10, closedSources = [1, 3, 5],
      timers = [], fresh = 8, calls = []\<rparr>"
  "failedStream 5 (defaultOptions ''task-1'') =
     \<lparr>progressState = JNull, isConnected = False, isConnecting = False, error = JNull,
      task = None, reconnectAttempts = 5, lastHeartbeat = 0, connectionTime = 0,
      eventSourceRef = Some 11, reconnectTimeoutRef = None, heartbeatTimeoutRef = None,
      abortControllerRef = True, connectionStartTimeRef = 10, closedSources = [1, 3, 5, 7, 9],
      timers = [], fresh = 12, calls = []\<rparr>"
  by (simp_all add: failedStream_def eval_nat_numeral mountedStream_state streamLost_connecting)

lemma openedStream_state:
  "openedStream (defaultOptions ''task-1'') =
     \<lparr>progressState = JNull, isConnected = False, isConnecting = False, error = JNull,
      task = None, reconnectAttempts = 0, lastHeartbeat = 0, connectionTime = 0,
      eventSourceRef = Some 3, reconnectTimeoutRef = None, heartbeatTimeoutRef = None,
      abortControllerRef = True, connectionStartTimeRef = 110, closedSources = [1, 2],
      timers = [], fresh = 4, calls = []\<rparr>"
  "openedStream tenSecondOptions = openedStream (defaultOptions ''task-1'')"
  by code_simp+

section \<open>Task snapshots and late events\<close>

lemma non_mutating_event_keeps_fields:
  assumes "task s = Some t"
    and "eventType frame \<notin> {JStr ''progress'', JStr ''status'', JStr ''error'', JStr ''completed''}"
  shows "\<exists>t'. task (handleEvent opt now nowIso frame r s) = Some t' \<and>
           progress t' = progress t \<and> status t' = status t \<and> errorMessage t' = errorMessage t"
  using assms
  by (cases frame)
     (auto simp: handleEvent_def eventType_def Let_def handleHeartbeat_task parseFailed_task
                 setTask_def call_def)

lemma mutating_event_applied:
  assumes "task s = Some t" "frame = Some ev" "truthy (field ev ''timestamp'')"
    "\<not> nullish (field ev ''data'')"
  shows "(field ev ''type'' = JStr ''status'' \<longrightarrow>
            map_option status (task (handleEvent opt now nowIso frame r s))
              = Some (field (field ev ''data'') ''status''))
     \<and> (field ev ''type'' = JStr ''error'' \<longrightarrow>
            map_option status (task (handleEvent opt now nowIso frame r s)) = Some (JStr ''failed''))
     \<and> (field ev ''type'' = JStr ''completed'' \<longrightarrow>
            map_option status (task (handleEvent opt now nowIso frame r s)) = Some (JStr ''completed'')
            \<and> map_option progress (task (handleEvent opt now nowIso frame r s)) = Some (JNum 100))
     \<and> (field ev ''type'' = JStr ''progress'' \<and> is_number (field (field ev ''data'') ''progress'')
          \<and> task r = Some t \<longrightarrow>
            map_option progress (task (handleEvent opt now nowIso frame r s))
              = Some (field (field ev ''data'') ''progress''))"
proof -
  have nn: "\<not> nullish ev" using assms(3) by (cases ev) auto
  have td: "truthy (field ev ''data'')" if "is_number (field (field ev ''data'') ''progress'')"
    using that by (cases "field ev ''data''") auto
  show ?thesis
    using assms nn td
    by (auto simp: handleEvent_def Let_def setTask_def call_def statusUpdate_def strict_neq_def)
qed

text \<open>
  Claim C1, as amended. \<open>handleEvent\<close> does not look at whether the snapshot is terminal.
  For every task snapshot, terminal or not, a frame whose type is not \<^verbatim>\<open>progress\<close>,
  \<^verbatim>\<open>status\<close>, \<^verbatim>\<open>error\<close> or \<^verbatim>\<open>completed\<close> (a step or heartbeat event, an event of an unknown
  type, a frame that does not parse or has no type) leaves \<open>progress\<close>, \<open>status\<close> and
  \<open>errorMessage\<close> of the snapshot as they were. The four other events are applied whatever
  the status of the snapshot is: a status event sets the status it carries, an error event
  sets \<^verbatim>\<open>failed\<close>, a completed event sets \<^verbatim>\<open>completed\<close> and progress 100, and a progress
  event sets the progress it carries.
\<close>

theorem snapshot_fields_after_event:
  assumes "task s = Some t"
  shows "(eventType frame \<notin> {JStr ''progress'', JStr ''status'', JStr ''error'', JStr ''completed''}
          \<longrightarrow> (\<exists>t'. task (handleEvent opt now nowIso frame r s) = Some t' \<and>
                 progress t' = progress t \<and> status t' = status t \<and> errorMessage t' = errorMessage t))
     \<and> (frame = Some ev \<and> truthy (field ev ''timestamp'') \<and> \<not> nullish (field ev ''data'') \<longrightarrow>
          (field ev ''type'' = JStr ''status'' \<longrightarrow>
             map_option status (task (handleEvent opt now nowIso frame r s))
               = Some (field (field ev ''data'') ''status''))
          \<and> (field ev ''type'' = JStr ''error'' \<longrightarrow>
             map_option status (task (handleEvent opt now nowIso frame r s)) = Some (JStr ''failed''))
          \<and> (field ev ''type'' = JStr ''completed'' \<longrightarrow>
             map_option status (task (handleEvent opt now nowIso frame r s)) = Some (JStr ''completed'')
             \<and> map_option progress (task (handleEvent opt now nowIso frame r s)) = Some (JNum 100))
          \<and> (field ev ''type'' = JStr ''progress'' \<and> is_number (field (field ev ''data'') ''progress'')
               \<and> task r = Some t \<longrightarrow>
             map_option progress (task (handleEvent opt now nowIso frame r s))
               = Some (field (field ev ''data'') ''progress'')))"
  using non_mutating_event_keeps_fields [OF assms, of frame opt now nowIso r]
        mutating_event_applied [OF assms, of frame ev opt now nowIso r]
  by blast

text \<open>A step event, an error event and a progress event that arrive for a completed task.\<close>

theorem snapshot_fields_after_event_witness:
  "(\<exists>t'. task (handleEvent (defaultOptions ''task-1'') 5 (JStr ''2024-01-01T00:06:00.000Z'')
                 (sseFrame ''step'' (JObj [(''step'', JStr ''archiving'')])) doneStream doneStream)
         = Some t' \<and>
        progress t' = progress doneTask \<and> status t' = status doneTask \<and>
        errorMessage t' = errorMessage doneTask)
   \<and> map_option status
        (task (handleEvent (defaultOptions ''task-1'') 5 (JStr ''2024-01-01T00:06:00.000Z'')
                 (sseFrame ''error'' (JObj [(''message'', JStr ''late failure'')]))
                 doneStream doneStream)) = Some (JStr ''failed'')
   \<and> map_option progress
        (task (handleEvent (defaultOptions ''task-1'') 5 (JStr ''2024-01-01T00:06:00.000Z'')
                 (sseFrame ''progress'' (JObj [(''progress'', JNum 40)]))
                 doneStream doneStream)) = Some (JNum 40)"
proof -
  have a: "task doneStream = Some doneTask" by code_simp
  have b: "eventType (sseFrame ''step'' (JObj [(''step'', JStr ''archiving'')]))
             \<notin> {JStr ''progress'', JStr ''status'', JStr ''error'', JStr ''completed''}"
    by (simp add: eventType_def sseFrame_def sseEvent_def)
  have c: "truthy (field (sseEvent ty d) ''timestamp'')"
    "field (sseEvent ty d) ''data'' = d"
    "field (sseEvent ty d) ''type'' = JStr ty" for ty d
    by (simp_all add: sseEvent_def)
  show ?thesis
    using b
      snapshot_fields_after_event
        [OF a, where frame = "sseFrame ''step'' (JObj [(''step'', JStr ''archiving'')])"
           and opt = "defaultOptions ''task-1''" and now = 5
           and nowIso = "JStr ''2024-01-01T00:06:00.000Z''" and r = doneStream]
      snapshot_fields_after_event
        [OF a, where frame = "sseFrame ''error'' (JObj [(''message'', JStr ''late failure'')])"
           and ev = "sseEvent ''error'' (JObj [(''message'', JStr ''late failure'')])"
           and opt = "defaultOptions ''task-1''" and now = 5
           and nowIso = "JStr ''2024-01-01T00:06:00.000Z''" and r = doneStream]
      snapshot_fields_after_event
        [OF a, where frame = "sseFrame ''progress'' (JObj [(''progress'', JNum 40)])"
           and ev = "sseEvent ''progress'' (JObj [(''progress'', JNum 40)])"
           and opt = "defaultOptions ''task-1''" and now = 5
           and nowIso = "JStr ''2024-01-01T00:06:00.000Z''" and r = doneStream]
    by (simp add: c a sseFrame_def)
qed

text \<open>
  Claim C1 as stated fails: a \<^verbatim>\<open>status\<close> event that arrives for a completed task sets its
  status to \<^verbatim>\<open>running\<close>.
\<close>

theorem terminal_snapshot_mutated_counterexample:
  "terminal doneTask \<and>
   map_option status
     (task (handleEvent (defaultOptions ''task-1'') 5 (JStr ''2024-01-01T00:06:00.000Z'')
              (sseFrame ''status'' (JObj [(''status'', JStr ''running'')]))
              doneStream doneStream))
   = Some (JStr ''running'')"
  by (simp add: terminal_def doneTask_def doneStream_def handleEvent_def sseFrame_def sseEvent_def
                initialStream_def setTask_def call_def statusUpdate_def Let_def)

section \<open>Disconnecting the WebSocket hook\<close>

text \<open>
  Claim C2, as amended. \<open>disconnect\<close> cancels, at once, the timers whose handles the hook
  keeps (the reconnect timer, the heartbeat interval, the heartbeat timeout and the ping
  timer), closes the socket, if it holds one, with code 1000 and the reason
  \<^verbatim>\<open>Disconnected by user\<close> and forgets it, and sets the status to \<^verbatim>\<open>disconnected\<close>. Every
  other armed timer stays armed (the connection timer and the timers of pending requests),
  and the pending requests, their promises and the queue stay as they were.
\<close>

theorem disconnect_clears_connection_timers_only:
  "reconnectTimeoutRef_ws (disconnect_ws s) = None
   \<and> heartbeatIntervalRef (disconnect_ws s) = None
   \<and> heartbeatTimeoutRef_ws (disconnect_ws s) = None
   \<and> pingTimeoutRef (disconnect_ws s) = None
   \<and> wsRef (disconnect_ws s) = None
   \<and> closeCalls (disconnect_ws s)
       = (if wsRef s = None then closeCalls s
          else closeCalls s @ [Some (1000, ''Disconnected by user'')])
   \<and> status_ws (disconnect_ws s) = Disconnected
   \<and> timers_ws (disconnect_ws s)
       = filter (\<lambda>t. Some (fst t) \<noteq> reconnectTimeoutRef_ws s \<and> Some (fst t) \<noteq> heartbeatIntervalRef s
                     \<and> Some (fst t) \<noteq> heartbeatTimeoutRef_ws s \<and> Some (fst t) \<noteq> pingTimeoutRef s)
           (timers_ws s)
   \<and> pendingMessagesRef (disconnect_ws s) = pendingMessagesRef s
   \<and> settled (disconnect_ws s) = settled s
   \<and> messageQueueRef (disconnect_ws s) = messageQueueRef s"
  by (auto simp: disconnect_ws_def stopHeartbeat_def Let_def disarm_ref_filter
           split: option.splits intro: filter_cong)

text \<open>
  Claim C2 as stated fails: after \<open>disconnect\<close> on a socket with one request in flight,
  the socket has been closed, yet the request is still pending, its promise is not settled,
  and its timer and the connection timer are still armed.
\<close>

theorem disconnect_leaves_pending_request_counterexample:
  "closeCalls (disconnect_ws requestInFlight) = [Some (1000, ''Disconnected by user'')]
   \<and> map fst (pendingMessagesRef (disconnect_ws requestInFlight)) = [''req-1'']
   \<and> settled (disconnect_ws requestInFlight) = []
   \<and> kinds (timers_ws (disconnect_ws requestInFlight)) = [ConnectionTimeout, MessageTimeout ''req-1'' 0]"
  by code_simp

section \<open>The reconnect delay\<close>

text \<open>
  Claim C3, as amended. The delay is computed without jitter, from the configuration and
  the attempt count alone, and the exponent is the number of attempts already made:
  \<open>handleReconnect\<close> arms its timer with
  \<open>min (reconnectInterval * reconnectBackoffFactor ^ (attempt - 1)) maxReconnectInterval\<close>
  for the attempt it starts (the first retry waits \<open>reconnectInterval\<close>), and the \<open>onerror\<close>
  handler of the task stream hook arms its timer with
  \<open>min (reconnectInterval * 2 ^ (attempt - 1)) 30000\<close>. The delay never exceeds the cap,
  and it is non-decreasing in the attempt when the interval is not negative and the factor
  is at least 1. All this is stated for the attempts at which the power and the product
  are doubles (\<open>exactDelay_ws\<close>, \<open>exactDelay\<close>), where the double arithmetic of the source
  does not round, overflow or yield \<^verbatim>\<open>NaN\<close>.
\<close>

theorem reconnect_delay_capped_and_monotone:
  "(exactDelay_ws opt (Suc (reconnectAttemptsRef s))
      \<longrightarrow> snd (snd (last (timers_ws (handleReconnect opt s)))) =
            min (reconnectInterval_ws opt * reconnectBackoffFactor opt ^ reconnectAttemptsRef s)
                (maxReconnectInterval opt))
   \<and> (exactDelay_ws opt attempt \<longrightarrow> reconnectDelay_ws opt attempt \<le> maxReconnectInterval opt)
   \<and> (0 \<le> reconnectInterval_ws opt \<and> 1 \<le> reconnectBackoffFactor opt \<and> a \<le> b
        \<and> exactDelay_ws opt a \<and> exactDelay_ws opt b
        \<longrightarrow> reconnectDelay_ws opt a \<le> reconnectDelay_ws opt b)
   \<and> (autoReconnect sopt \<and> reconnectAttempts r < maxReconnectAttempts sopt
        \<and> exactDelay sopt (reconnectAttempts r)
        \<longrightarrow> snd (snd (last (timers (onerror sopt True r st)))) =
            min (reconnectInterval sopt * 2 ^ reconnectAttempts r) 30000)
   \<and> (exactDelay sopt n \<longrightarrow> reconnectDelay sopt n \<le> 30000)
   \<and> (0 \<le> reconnectInterval sopt \<and> a \<le> b \<and> exactDelay sopt a \<and> exactDelay sopt b
        \<longrightarrow> reconnectDelay sopt a \<le> reconnectDelay sopt b)"
proof -
  have 1: "snd (snd (last (timers_ws (handleReconnect opt s)))) =
     min (reconnectInterval_ws opt * reconnectBackoffFactor opt ^ reconnectAttemptsRef s)
         (maxReconnectInterval opt)"
    by (simp add: handleReconnect_def Let_def setTimer_def call_ws_def arm_def reconnectDelay_ws_def)
  have 2: "reconnectDelay_ws opt attempt \<le> maxReconnectInterval opt"
    by (simp add: reconnectDelay_ws_def)
  have 3: "reconnectDelay_ws opt a \<le> reconnectDelay_ws opt b"
    if "0 \<le> reconnectInterval_ws opt" "1 \<le> reconnectBackoffFactor opt" "a \<le> b"
  proof -
    have "reconnectBackoffFactor opt ^ (a - 1) \<le> reconnectBackoffFactor opt ^ (b - 1)"
      using that by (intro power_increasing) auto
    then have "reconnectInterval_ws opt * reconnectBackoffFactor opt ^ (a - 1)
               \<le> reconnectInterval_ws opt * reconnectBackoffFactor opt ^ (b - 1)"
      using that(1) by (rule mult_left_mono)
    then show ?thesis
      unfolding reconnectDelay_ws_def by (rule min.mono) simp
  qed
  have 4: "snd (snd (last (timers (onerror sopt True r st)))) =
            min (reconnectInterval sopt * 2 ^ reconnectAttempts r) 30000"
    if "autoReconnect sopt" "reconnectAttempts r < maxReconnectAttempts sopt"
    using that by (simp add: onerror_def Let_def arm_def call_def reconnectDelay_def)
  have 5: "reconnectDelay sopt n \<le> 30000"
    by (simp add: reconnectDelay_def)
  have 6: "reconnectDelay sopt a \<le> reconnectDelay sopt b" if "0 \<le> reconnectInterval sopt" "a \<le> b"
  proof -
    have "(2::rat) ^ a \<le> 2 ^ b" using that by (intro power_increasing) auto
    then have "reconnectInterval sopt * 2 ^ a \<le> reconnectInterval sopt * 2 ^ b"
      using that(1) by (rule mult_left_mono)
    then show ?thesis unfolding reconnectDelay_def by (rule min.mono) simp
  qed
  from 1 2 3 4 5 6 show ?thesis by blast
qed

lemma default_delays_exact:
  "exactDelay_ws DEFAULT_WEBSOCKET_CONFIG 1 \<and> exactDelay_ws DEFAULT_WEBSOCKET_CONFIG 2
   \<and> exactDelay_ws DEFAULT_WEBSOCKET_CONFIG 5
   \<and> exactDelay (defaultOptions ''task-1'') 0 \<and> exactDelay (defaultOptions ''task-1'') 1
   \<and> exactDelay (defaultOptions ''task-1'') 4"
  by code_simp

text \<open>
  The numbers 3000.0000000000005 (what the source computes for 3000 * 1.1, the factor
  being the double next to 1.1) and \<open>2 ^ 1024\<close> are not doubles, so a factor of 1.1 and
  an overflowing power are outside the statement.
\<close>

lemma inexact_delays:
  "double (2476979795053773 / 2 ^ 51) \<and> \<not> double (3000 * (2476979795053773 / 2 ^ 51))
   \<and> \<not> exactDelay ((defaultOptions ''task-1'')\<lparr>reconnectInterval := 0\<rparr>) 1024"
  by code_simp

text \<open>
  With the default configurations: attempts 1, 2 and 5 of the WebSocket hook (3000, 4500
  and 15187.5 ms), and the first EventSource of a stream failing (3000 ms, then 6000).
\<close>

theorem reconnect_delay_capped_and_monotone_witness:
  "snd (snd (last (timers_ws (handleReconnect DEFAULT_WEBSOCKET_CONFIG initialSocket)))) = 3000
   \<and> reconnectDelay_ws DEFAULT_WEBSOCKET_CONFIG 5 \<le> 30000
   \<and> reconnectDelay_ws DEFAULT_WEBSOCKET_CONFIG 1 \<le> reconnectDelay_ws DEFAULT_WEBSOCKET_CONFIG 2
   \<and> snd (snd (last (timers (onerror (defaultOptions ''task-1'') True initialStream
                                  (mountedStream (defaultOptions ''task-1''))))))
       = 3000
   \<and> reconnectDelay (defaultOptions ''task-1'') 4 \<le> 30000
   \<and> reconnectDelay (defaultOptions ''task-1'') 0 \<le> reconnectDelay (defaultOptions ''task-1'') 1"
  using reconnect_delay_capped_and_monotone
          [where opt = DEFAULT_WEBSOCKET_CONFIG and s = initialSocket and attempt = 5
             and a = 1 and b = 2 and sopt = "defaultOptions ''task-1''" and r = initialStream
             and st = "mountedStream (defaultOptions ''task-1'')" and n = 4]
        reconnect_delay_capped_and_monotone
          [where opt = DEFAULT_WEBSOCKET_CONFIG and s = initialSocket and attempt = 5
             and a = 0 and b = 1 and sopt = "defaultOptions ''task-1''" and r = initialStream
             and st = "mountedStream (defaultOptions ''task-1'')" and n = 4]
        default_delays_exact
  by (simp add: DEFAULT_WEBSOCKET_CONFIG_def defaultOptions_def initialStream_def
        initialSocket_def)

text \<open>
  Claim C3 as stated fails at the first retry: with the default configuration the hook
  waits 3000 ms, where \<open>min (baseDelay * factor ^ attempt) maxDelay\<close> at attempt 1 is 4500.
  Both numbers are computed without rounding.
\<close>

theorem first_retry_delay_counterexample:
  "snd (snd (last (timers_ws (handleReconnect DEFAULT_WEBSOCKET_CONFIG initialSocket)))) = 3000
   \<and> reconnectAttemptsRef (handleReconnect DEFAULT_WEBSOCKET_CONFIG initialSocket) = 1
   \<and> min (reconnectInterval_ws DEFAULT_WEBSOCKET_CONFIG
            * reconnectBackoffFactor DEFAULT_WEBSOCKET_CONFIG ^ 1)
         (maxReconnectInterval DEFAULT_WEBSOCKET_CONFIG) = 4500"
  by (simp add: handleReconnect_def Let_def setTimer_def call_ws_def arm_def
                reconnectDelay_ws_def DEFAULT_WEBSOCKET_CONFIG_def initialSocket_def)

section \<open>The cap on reconnect attempts\<close>

lemma stopHeartbeat_timers:
  "timers_ws (stopHeartbeat s)
     = filter (\<lambda>t. Some (fst t) \<noteq> heartbeatIntervalRef s \<and> Some (fst t) \<noteq> heartbeatTimeoutRef_ws s
                   \<and> Some (fst t) \<noteq> pingTimeoutRef s) (timers_ws s)"
  by (auto simp: stopHeartbeat_def Let_def disarm_ref_filter intro: filter_cong)

lemma stopHeartbeat_other:
  "fresh_ws (stopHeartbeat s) = fresh_ws s" "calls_ws (stopHeartbeat s) = calls_ws s"
  "reconnectAttemptsRef (stopHeartbeat s) = reconnectAttemptsRef s"
  "reconnectTimeoutRef_ws (stopHeartbeat s) = reconnectTimeoutRef_ws s"
  "wsRef (stopHeartbeat s) = wsRef s" "status_ws (stopHeartbeat s) = status_ws s"
  "isConnecting_ws (stopHeartbeat s) = isConnecting_ws s"
  "error_ws (stopHeartbeat s) = error_ws s"
  by (simp_all add: stopHeartbeat_def Let_def)


lemma handleError_fields:
  "timers_ws (handleError opt s) = timers_ws s" "fresh_ws (handleError opt s) = fresh_ws s"
  "calls_ws (handleError opt s) = calls_ws s @ [OnError_ws]"
  "reconnectAttemptsRef (handleError opt s) = reconnectAttemptsRef s"
  "reconnectTimeoutRef_ws (handleError opt s) = reconnectTimeoutRef_ws s"
  "heartbeatIntervalRef (handleError opt s) = heartbeatIntervalRef s"
  "heartbeatTimeoutRef_ws (handleError opt s) = heartbeatTimeoutRef_ws s"
  "pingTimeoutRef (handleError opt s) = pingTimeoutRef s"
  "wsRef (handleError opt s) = wsRef s"
  "error_ws (handleError opt s) = Some (CONNECTION_FAILED, ''WebSocket connection failed'')"
  by (simp_all add: handleError_def updateStatistics_def call_ws_def)

lemma handleClose_exhausted:
  assumes "\<not> reconnectAttemptsRef s < maxReconnectAttempts_ws opt"
  shows "timers_ws (handleClose opt now (c, rsn, False) s)
           = filter (\<lambda>t. Some (fst t) \<noteq> heartbeatIntervalRef s \<and> Some (fst t) \<noteq> heartbeatTimeoutRef_ws s
                   \<and> Some (fst t) \<noteq> pingTimeoutRef s) (timers_ws s)"
    "fresh_ws (handleClose opt now (c, rsn, False) s) = fresh_ws s"
    "calls_ws (handleClose opt now (c, rsn, False) s) = calls_ws s @ [OnClose c rsn False]"
    "reconnectAttemptsRef (handleClose opt now (c, rsn, False) s) = reconnectAttemptsRef s"
    "reconnectTimeoutRef_ws (handleClose opt now (c, rsn, False) s) = reconnectTimeoutRef_ws s"
    "status_ws (handleClose opt now (c, rsn, False) s) = Disconnected"
    "error_ws (handleClose opt now (c, rsn, False) s) = error_ws s"
    "wsRef (handleClose opt now (c, rsn, False) s) = wsRef s"
  using assms
  by (simp_all add: handleClose_def Let_def updateStatistics_def
        call_ws_def stopHeartbeat_timers stopHeartbeat_other)

lemma handleClose_retry:
  assumes "enableAutoReconnect opt" "reconnectAttemptsRef s < maxReconnectAttempts_ws opt"
  shows "timers_ws (handleClose opt now (c, rsn, False) s)
           = filter (\<lambda>t. Some (fst t) \<noteq> heartbeatIntervalRef s \<and> Some (fst t) \<noteq> heartbeatTimeoutRef_ws s
                   \<and> Some (fst t) \<noteq> pingTimeoutRef s) (timers_ws s)
             @ [(fresh_ws s, ReconnectTimeout,
                 reconnectDelay_ws opt (Suc (reconnectAttemptsRef s)))]"
    "fresh_ws (handleClose opt now (c, rsn, False) s) = Suc (fresh_ws s)"
    "reconnectTimeoutRef_ws (handleClose opt now (c, rsn, False) s) = Some (fresh_ws s)"
    "calls_ws (handleClose opt now (c, rsn, False) s)
       = calls_ws s @ [OnClose c rsn False,
                       OnReconnect (Suc (reconnectAttemptsRef s)) (maxReconnectAttempts_ws opt)]"
    "reconnectAttemptsRef (handleClose opt now (c, rsn, False) s) = Suc (reconnectAttemptsRef s)"
    "status_ws (handleClose opt now (c, rsn, False) s) = Reconnecting"
    "\<not> isConnecting_ws (handleClose opt now (c, rsn, False) s)"
    "wsRef (handleClose opt now (c, rsn, False) s) = wsRef s"
  using assms
  by (simp_all add: handleClose_def handleReconnect_def Let_def
        updateStatistics_def call_ws_def stopHeartbeat_timers stopHeartbeat_other setTimer_def
        arm_def)


lemma map_of_fresh_append:
  "\<forall>t \<in> set tbl. fst t < (h::nat) \<Longrightarrow> map_of (tbl @ [(h, v)]) h = Some v"
  by (induction tbl) auto

lemma disarm_fresh_append:
  "\<forall>t \<in> set tbl. fst t < (h::nat) \<Longrightarrow> disarm h (tbl @ [(h, v)]) = tbl"
  by (induction tbl) (auto simp: disarm_def)

lemma map_of_other_kind:
  "k \<notin> set (kinds tbl) \<Longrightarrow> map_of tbl h \<noteq> Some (k, d)"
  by (induction tbl) (auto simp: kinds_def)

lemma connectionLost_exhausted:
  assumes "\<not> reconnectAttemptsRef s < maxReconnectAttempts_ws opt" "quiet_ws s"
  shows "reconnectAttemptsRef (connectionLost opt now s) = reconnectAttemptsRef s
     \<and> scheduled_ws (connectionLost opt now s) = scheduled_ws s
     \<and> quiet_ws (connectionLost opt now s)
     \<and> status_ws (connectionLost opt now s) = Disconnected
     \<and> error_ws (connectionLost opt now s) = Some (CONNECTION_FAILED, ''WebSocket connection failed'')"
proof -
  define s0 where "s0 = handleError opt (s\<lparr>wsRef := map_option (\<lambda>st. CLOSED) (wsRef s)\<rparr>)"
  define s1 where "s1 = handleClose opt now (1006, [], False) s0"
  have a0: "\<not> reconnectAttemptsRef s0 < maxReconnectAttempts_ws opt"
    using assms(1) by (simp add: s0_def handleError_fields)
  note c = handleClose_exhausted [OF a0, of now 1006 "[]", folded s1_def]
  have t1: "set (timers_ws s1) \<subseteq> set (timers_ws s)"
    by (auto simp: c s0_def handleError_fields)
  have f1: "fresh_ws s1 = fresh_ws s"
    by (simp add: c s0_def handleError_fields)
  have q1: "quiet_ws s1"
    using assms(2) t1 f1 by (auto simp: quiet_ws_def kinds_def)
  have nofire: "connectionLost opt now s = s1"
  proof (cases "reconnectTimeoutRef_ws s1")
    case None
    then show ?thesis by (simp add: connectionLost_def s1_def s0_def Let_def)
  next
    case (Some h)
    have "map_of (timers_ws s1) h \<noteq> Some (ReconnectTimeout, d)" for d
      using q1 by (intro map_of_other_kind) (simp add: quiet_ws_def)
    then show ?thesis
      using Some
      by (auto simp: connectionLost_def s1_def [symmetric] s0_def [symmetric] Let_def
               split: option.splits ws_timer.splits)
  qed
  have "scheduled_ws s1 = scheduled_ws s"
    by (simp add: scheduled_ws_def c s0_def handleError_fields)
  moreover have "reconnectAttemptsRef s1 = reconnectAttemptsRef s"
    by (simp add: c s0_def handleError_fields)
  moreover have "status_ws s1 = Disconnected"
    by (simp add: c)
  moreover have "error_ws s1 = Some (CONNECTION_FAILED, ''WebSocket connection failed'')"
    by (simp add: c s0_def handleError_fields)
  ultimately show ?thesis using q1 nofire by simp
qed

lemma connectionLost_retry:
  assumes "enableAutoReconnect opt" "reconnectAttemptsRef s < maxReconnectAttempts_ws opt"
    "quiet_ws s"
  shows "reconnectAttemptsRef (connectionLost opt now s) = Suc (reconnectAttemptsRef s)
     \<and> scheduled_ws (connectionLost opt now s) = Suc (scheduled_ws s)
     \<and> quiet_ws (connectionLost opt now s)
     \<and> status_ws (connectionLost opt now s) = Connecting"
proof -
  define s0 where "s0 = handleError opt (s\<lparr>wsRef := map_option (\<lambda>st. CLOSED) (wsRef s)\<rparr>)"
  define s1 where "s1 = handleClose opt now (1006, [], False) s0"
  define T where "T = filter (\<lambda>t. Some (fst t) \<noteq> heartbeatIntervalRef s0
                   \<and> Some (fst t) \<noteq> heartbeatTimeoutRef_ws s0
                   \<and> Some (fst t) \<noteq> pingTimeoutRef s0) (timers_ws s0)"
  define h where "h = fresh_ws s"
  have a0: "reconnectAttemptsRef s0 < maxReconnectAttempts_ws opt"
    using assms(2) by (simp add: s0_def handleError_fields)
  note c = handleClose_retry [OF assms(1) a0, of now 1006 "[]", folded s1_def T_def]
  have f0: "fresh_ws s0 = h" by (simp add: s0_def h_def handleError_fields)
  have T: "set T \<subseteq> set (timers_ws s)"
    by (auto simp: T_def s0_def handleError_fields)
  then have Th: "\<forall>t \<in> set T. fst t < h" and Tk: "ReconnectTimeout \<notin> set (kinds T)"
    using assms(3) by (auto simp: quiet_ws_def h_def kinds_def)
  have tm: "timers_ws s1 = T @ [(h, ReconnectTimeout, reconnectDelay_ws opt (Suc (reconnectAttemptsRef s0)))]"
    using c(1) f0 by simp
  have ref: "reconnectTimeoutRef_ws s1 = Some h" using c(3) f0 by simp
  have look: "map_of (timers_ws s1) h
               = Some (ReconnectTimeout, reconnectDelay_ws opt (Suc (reconnectAttemptsRef s0)))"
    unfolding tm using Th by (rule map_of_fresh_append)
  have dis: "disarm h (timers_ws s1) = T"
    unfolding tm using Th by (rule disarm_fresh_append)
  have notopen: "wsRef s1 \<noteq> Some OPEN"
    by (cases "wsRef s") (simp_all add: c s0_def handleError_fields)
  have fire: "connectionLost opt now s = reconnectTimeoutFired opt now False h s1 s1"
    using ref look
    by (simp add: connectionLost_def s1_def [symmetric] s0_def [symmetric] Let_def)
  have res: "timers_ws (reconnectTimeoutFired opt now False h s1 s1)
               = T @ [(Suc h, ConnectionTimeout, connectionTimeout opt)]"
    "fresh_ws (reconnectTimeoutFired opt now False h s1 s1) = Suc (Suc h)"
    "calls_ws (reconnectTimeoutFired opt now False h s1 s1) = calls_ws s1"
    "reconnectAttemptsRef (reconnectTimeoutFired opt now False h s1 s1) = reconnectAttemptsRef s1"
    "status_ws (reconnectTimeoutFired opt now False h s1 s1) = Connecting"
    using notopen c(7) c(2) f0 dis
    by (simp_all add: reconnectTimeoutFired_def connect_ws_def Let_def setTimer_def arm_def)
  have "quiet_ws (reconnectTimeoutFired opt now False h s1 s1)"
    using Th Tk by (auto simp: quiet_ws_def res kinds_def)
  moreover have "scheduled_ws (reconnectTimeoutFired opt now False h s1 s1) = Suc (scheduled_ws s)"
    by (simp add: scheduled_ws_def res c s0_def handleError_fields)
  moreover have "reconnectAttemptsRef (reconnectTimeoutFired opt now False h s1 s1)
                   = Suc (reconnectAttemptsRef s)"
    by (simp add: res c s0_def handleError_fields)
  ultimately show ?thesis using fire res(5) by simp
qed

lemma connectionLost_iterated:
  assumes "enableAutoReconnect opt" "quiet_ws s"
    "reconnectAttemptsRef s \<le> maxReconnectAttempts_ws opt"
  shows "reconnectAttemptsRef ((connectionLost opt now ^^ n) s)
           = min (reconnectAttemptsRef s + n) (maxReconnectAttempts_ws opt)
     \<and> scheduled_ws ((connectionLost opt now ^^ n) s)
           = scheduled_ws s + min n (maxReconnectAttempts_ws opt - reconnectAttemptsRef s)
     \<and> quiet_ws ((connectionLost opt now ^^ n) s)
     \<and> (maxReconnectAttempts_ws opt - reconnectAttemptsRef s < n \<longrightarrow>
          status_ws ((connectionLost opt now ^^ n) s) = Disconnected
          \<and> error_ws ((connectionLost opt now ^^ n) s)
              = Some (CONNECTION_FAILED, ''WebSocket connection failed''))"
proof (induction n)
  case 0
  then show ?case using assms by simp
next
  case (Suc n)
  let ?t = "(connectionLost opt now ^^ n) s"
  show ?case
  proof (cases "reconnectAttemptsRef ?t < maxReconnectAttempts_ws opt")
    case True
    with Suc connectionLost_retry [OF assms(1) True, of now] show ?thesis
      by (auto simp: min_def split: if_splits)
  next
    case False
    with Suc connectionLost_exhausted [OF False, of now] show ?thesis
      by (auto simp: min_def split: if_splits)
  qed
qed

lemma disconnect_timers:
  "timers (disconnect s)
     = filter (\<lambda>t. Some (fst t) \<noteq> reconnectTimeoutRef s \<and> Some (fst t) \<noteq> heartbeatTimeoutRef s)
         (timers s)"
  "fresh (disconnect s) = fresh s" "calls (disconnect s) = calls s"
  "reconnectAttempts (disconnect s) = reconnectAttempts s"
  by (auto simp: disconnect_def Let_def disarm_ref_filter split: option.splits intro: filter_cong)

lemma connect_fields:
  assumes "taskId opt \<noteq> []" "\<not> isConnecting r" "onLine env" "baseUrl env \<noteq> []"
    "sourceThrows env = None"
  shows "timers (connect opt env now r s)
     = filter (\<lambda>t. Some (fst t) \<noteq> reconnectTimeoutRef s \<and> Some (fst t) \<noteq> heartbeatTimeoutRef s)
         (timers s)"
    "fresh (connect opt env now r s) = Suc (fresh s)"
    "calls (connect opt env now r s) = calls s"
    "reconnectAttempts (connect opt env now r s) = reconnectAttempts s"
    "error (connect opt env now r s) = JNull"
    "\<not> isConnected (connect opt env now r s)"
  using assms by (simp_all add: connect_def Let_def disconnect_timers) (simp_all add: disconnect_def Let_def split: option.splits)

lemma onerror_exhausted:
  assumes "\<not> (autoReconnect opt \<and> reconnectAttempts r < maxReconnectAttempts opt)"
  shows "timers (onerror opt True r s) = timers s" "fresh (onerror opt True r s) = fresh s"
    "reconnectTimeoutRef (onerror opt True r s) = reconnectTimeoutRef s"
    "reconnectAttempts (onerror opt True r s) = reconnectAttempts s"
    "calls (onerror opt True r s)
       = calls s @ [OnError (JStr (if retryOnNetworkError opt then ''Connection to server lost''
                                   else ''Max reconnection attempts reached''))]"
    "error (onerror opt True r s)
       = JStr (if retryOnNetworkError opt then ''Connection to server lost''
               else ''Max reconnection attempts reached'')"
    "\<not> isConnected (onerror opt True r s)"
  using assms by (auto simp: onerror_def Let_def call_def)

lemma onerror_retry:
  assumes "autoReconnect opt" "reconnectAttempts r < maxReconnectAttempts opt"
  shows "timers (onerror opt True r s)
           = timers s @ [(fresh s, ReconnectTimer (Suc (reconnectAttempts r)),
                          reconnectDelay opt (reconnectAttempts r))]"
    "fresh (onerror opt True r s) = Suc (fresh s)"
    "reconnectTimeoutRef (onerror opt True r s) = Some (fresh s)"
    "reconnectAttempts (onerror opt True r s) = Suc (reconnectAttempts r)"
    "calls (onerror opt True r s) = calls s"
    "\<not> isConnecting (onerror opt True r s)"
    "heartbeatTimeoutRef (onerror opt True r s) = heartbeatTimeoutRef s"
  using assms by (simp_all add: onerror_def Let_def arm_def)

text \<open>
  Claim C4, as amended. In the WebSocket hook, starting from a hook that has made no
  attempt, after \<open>n\<close> connection failures in a row \<open>min n maxReconnectAttempts\<close> reconnects
  have been scheduled: with a maximum of 5, exactly 5 and never a sixth. The failure that
  finds the attempts used up schedules nothing and leaves the hook with status
  \<^verbatim>\<open>disconnected\<close> (the \<^verbatim>\<open>error\<close> status set by the error event is overwritten by the close
  event) and with the connection error of the error event; no reconnect timer is armed
  after any number of further failures. In the task stream hook, the \<open>onerror\<close> handler of
  an EventSource that has closed, made in a render whose attempt counter is \<open>k\<close>: when
  auto-reconnect is on and \<open>k < maxReconnectAttempts\<close> it sets the counter to \<open>k + 1\<close> and
  arms one reconnect timer, for attempt \<open>k + 1\<close>, and calls no callback; otherwise it arms
  no timer, leaves the counter, sets the error text \<^verbatim>\<open>Connection to server lost\<close> (or
  \<^verbatim>\<open>Max reconnection attempts reached\<close> when \<^verbatim>\<open>retryOnNetworkError\<close> is off) and reports it
  through \<^verbatim>\<open>onError\<close>. In both cases it leaves the hook not connected.
\<close>

theorem reconnect_attempts_capped:
  "(enableAutoReconnect opt \<and> reconnectAttemptsRef s = 0
    \<and> ReconnectTimeout \<notin> set (kinds (timers_ws s))
    \<and> (\<forall>t \<in> set (timers_ws s). fst t < fresh_ws s) \<longrightarrow>
      scheduled_ws ((connectionLost opt now ^^ n) s)
        = scheduled_ws s + min n (maxReconnectAttempts_ws opt)
      \<and> reconnectAttemptsRef ((connectionLost opt now ^^ n) s) = min n (maxReconnectAttempts_ws opt)
      \<and> ReconnectTimeout \<notin> set (kinds (timers_ws ((connectionLost opt now ^^ n) s)))
      \<and> (maxReconnectAttempts_ws opt < n \<longrightarrow>
           status_ws ((connectionLost opt now ^^ n) s) = Disconnected
           \<and> error_ws ((connectionLost opt now ^^ n) s)
               = Some (CONNECTION_FAILED, ''WebSocket connection failed'')))
   \<and> (autoReconnect sopt \<and> reconnectAttempts r < maxReconnectAttempts sopt \<longrightarrow>
        reconnectAttempts (onerror sopt True r st) = Suc (reconnectAttempts r)
        \<and> kinds (timers (onerror sopt True r st))
            = kinds (timers st) @ [ReconnectTimer (Suc (reconnectAttempts r))]
        \<and> reconnectTimeoutRef (onerror sopt True r st) = Some (fresh st)
        \<and> calls (onerror sopt True r st) = calls st
        \<and> error (onerror sopt True r st) = error st
        \<and> \<not> isConnected (onerror sopt True r st))
   \<and> (\<not> (autoReconnect sopt \<and> reconnectAttempts r < maxReconnectAttempts sopt) \<longrightarrow>
        timers (onerror sopt True r st) = timers st
        \<and> reconnectTimeoutRef (onerror sopt True r st) = reconnectTimeoutRef st
        \<and> reconnectAttempts (onerror sopt True r st) = reconnectAttempts st
        \<and> error (onerror sopt True r st)
            = JStr (if retryOnNetworkError sopt then ''Connection to server lost''
                    else ''Max reconnection attempts reached'')
        \<and> calls (onerror sopt True r st)
            = calls st @ [OnError (JStr (if retryOnNetworkError sopt
                                         then ''Connection to server lost''
                                         else ''Max reconnection attempts reached''))]
        \<and> \<not> isConnected (onerror sopt True r st))"
proof (intro conjI impI)
  assume a: "enableAutoReconnect opt \<and> reconnectAttemptsRef s = 0
    \<and> ReconnectTimeout \<notin> set (kinds (timers_ws s))
    \<and> (\<forall>t \<in> set (timers_ws s). fst t < fresh_ws s)"
  then have q: "quiet_ws s" by (simp add: quiet_ws_def)
  note r = connectionLost_iterated [where opt = opt and s = s and now = now and n = n, OF _ q]
  show "scheduled_ws ((connectionLost opt now ^^ n) s)
        = scheduled_ws s + min n (maxReconnectAttempts_ws opt)"
    and "reconnectAttemptsRef ((connectionLost opt now ^^ n) s) = min n (maxReconnectAttempts_ws opt)"
    and "ReconnectTimeout \<notin> set (kinds (timers_ws ((connectionLost opt now ^^ n) s)))"
    using a r by (simp_all add: quiet_ws_def)
  assume "maxReconnectAttempts_ws opt < n"
  then show "status_ws ((connectionLost opt now ^^ n) s) = Disconnected"
    and "error_ws ((connectionLost opt now ^^ n) s)
               = Some (CONNECTION_FAILED, ''WebSocket connection failed'')"
    using a r by simp_all
next
  assume a: "autoReconnect sopt \<and> reconnectAttempts r < maxReconnectAttempts sopt"
  then show "reconnectAttempts (onerror sopt True r st) = Suc (reconnectAttempts r)"
    and "kinds (timers (onerror sopt True r st))
            = kinds (timers st) @ [ReconnectTimer (Suc (reconnectAttempts r))]"
    and "reconnectTimeoutRef (onerror sopt True r st) = Some (fresh st)"
    and "calls (onerror sopt True r st) = calls st"
    and "error (onerror sopt True r st) = error st"
    and "\<not> isConnected (onerror sopt True r st)"
    by (simp_all add: onerror_def Let_def arm_def kinds_def)
next
  assume a: "\<not> (autoReconnect sopt \<and> reconnectAttempts r < maxReconnectAttempts sopt)"
  note e = onerror_exhausted [OF a, of st]
  show "timers (onerror sopt True r st) = timers st"
    and "reconnectTimeoutRef (onerror sopt True r st) = reconnectTimeoutRef st"
    and "reconnectAttempts (onerror sopt True r st) = reconnectAttempts st"
    and "error (onerror sopt True r st)
            = JStr (if retryOnNetworkError sopt then ''Connection to server lost''
                    else ''Max reconnection attempts reached'')"
    and "calls (onerror sopt True r st)
            = calls st @ [OnError (JStr (if retryOnNetworkError sopt
                                         then ''Connection to server lost''
                                         else ''Max reconnection attempts reached''))]"
    and "\<not> isConnected (onerror sopt True r st)"
    using e by simp_all
qed

text \<open>
  Six failures in a row of the WebSocket hook with the default configuration; in the task
  stream hook with the default options, the failure of the first EventSource and the
  failure of the sixth, whose handlers see the counter at 5.
\<close>

theorem reconnect_attempts_capped_witness:
  "scheduled_ws ((connectionLost DEFAULT_WEBSOCKET_CONFIG 60000 ^^ 6) openSocket) = 5
   \<and> reconnectAttemptsRef ((connectionLost DEFAULT_WEBSOCKET_CONFIG 60000 ^^ 6) openSocket) = 5
   \<and> status_ws ((connectionLost DEFAULT_WEBSOCKET_CONFIG 60000 ^^ 6) openSocket) = Disconnected
   \<and> reconnectAttempts (onerror (defaultOptions ''task-1'') True initialStream
                           (mountedStream (defaultOptions ''task-1''))) = 1
   \<and> kinds (timers (onerror (defaultOptions ''task-1'') True initialStream
                       (mountedStream (defaultOptions ''task-1'')))) = [ReconnectTimer 1]
   \<and> reconnectAttempts (failedStream 5 (defaultOptions ''task-1'')) = 5
   \<and> timers (onerror (defaultOptions ''task-1'') True (failedStream 5 (defaultOptions ''task-1''))
                (failedStream 5 (defaultOptions ''task-1''))) = []
   \<and> error (onerror (defaultOptions ''task-1'') True (failedStream 5 (defaultOptions ''task-1''))
               (failedStream 5 (defaultOptions ''task-1'')))
       = JStr ''Connection to server lost''
   \<and> calls (onerror (defaultOptions ''task-1'') True (failedStream 5 (defaultOptions ''task-1''))
               (failedStream 5 (defaultOptions ''task-1'')))
       = [OnError (JStr ''Connection to server lost'')]"
proof -
  have a: "enableAutoReconnect DEFAULT_WEBSOCKET_CONFIG" "reconnectAttemptsRef openSocket = 0"
    "ReconnectTimeout \<notin> set (kinds (timers_ws openSocket))"
    "\<forall>t \<in> set (timers_ws openSocket). fst t < fresh_ws openSocket"
    "scheduled_ws openSocket = 0" "maxReconnectAttempts_ws DEFAULT_WEBSOCKET_CONFIG = 5"
    by code_simp+
  have b: "autoReconnect (defaultOptions ''task-1'')" "reconnectAttempts initialStream = 0"
    "maxReconnectAttempts (defaultOptions ''task-1'') = 5"
    "retryOnNetworkError (defaultOptions ''task-1'')"
    by code_simp+
  show ?thesis
    using a b
      reconnect_attempts_capped
        [where opt = DEFAULT_WEBSOCKET_CONFIG and s = openSocket and now = 60000 and n = 6
           and sopt = "defaultOptions ''task-1''" and r = initialStream
           and st = "mountedStream (defaultOptions ''task-1'')"]
      reconnect_attempts_capped
        [where opt = DEFAULT_WEBSOCKET_CONFIG and s = openSocket and now = 60000 and n = 6
           and sopt = "defaultOptions ''task-1''" and r = "failedStream 5 (defaultOptions ''task-1'')"
           and st = "failedStream 5 (defaultOptions ''task-1'')"]
    by (simp add: kinds_def mountedStream_state failedStream_state)
qed

text \<open>
  Claim C4 as stated fails for the WebSocket hook: after the failure that exhausts the
  five attempts its status is \<^verbatim>\<open>disconnected\<close>, not \<^verbatim>\<open>error\<close>.
\<close>

theorem exhausted_socket_is_disconnected_counterexample:
  "maxReconnectAttempts_ws DEFAULT_WEBSOCKET_CONFIG = 5
   \<and> status_ws (connectionLost DEFAULT_WEBSOCKET_CONFIG 60000
        (connectionLost DEFAULT_WEBSOCKET_CONFIG 50000
          (connectionLost DEFAULT_WEBSOCKET_CONFIG 40000
            (connectionLost DEFAULT_WEBSOCKET_CONFIG 30000
              (connectionLost DEFAULT_WEBSOCKET_CONFIG 20000
                (connectionLost DEFAULT_WEBSOCKET_CONFIG 10000 openSocket))))))
     = Disconnected
   \<and> scheduled_ws (connectionLost DEFAULT_WEBSOCKET_CONFIG 60000
        (connectionLost DEFAULT_WEBSOCKET_CONFIG 50000
          (connectionLost DEFAULT_WEBSOCKET_CONFIG 40000
            (connectionLost DEFAULT_WEBSOCKET_CONFIG 30000
              (connectionLost DEFAULT_WEBSOCKET_CONFIG 20000
                (connectionLost DEFAULT_WEBSOCKET_CONFIG 10000 openSocket))))))
     = 5"
  by code_simp

section \<open>Sending while the socket is not open\<close>

text \<open>
  Claim C5, as amended. \<open>send\<close> while the socket is not open rejects the promise it
  returns at once. With \<^verbatim>\<open>config.autoReconnect\<close> it first appends the message to the
  queue, whatever the length of the queue (there is no capacity, and nothing is ever
  removed by \<open>send\<close>), and the rejection says \<^verbatim>\<open>WebSocket not connected - message queued\<close>;
  without it the message is not queued and the rejection says \<^verbatim>\<open>WebSocket not connected\<close>.
  Nothing is written to the socket.
\<close>

theorem send_while_not_open_rejects:
  assumes "wsRef s \<noteq> Some OPEN" and "map_of (settled s) (promises s) = None"
  shows "fst (send opt len thr message s) = promises s
     \<and> (autoReconnect_ws opt \<longrightarrow>
          messageQueueRef (snd (send opt len thr message s)) = messageQueueRef s @ [message]
          \<and> map_of (settled (snd (send opt len thr message s))) (promises s)
              = Some (Rejected (JStr ''WebSocket not connected - message queued'')))
     \<and> (\<not> autoReconnect_ws opt \<longrightarrow>
          messageQueueRef (snd (send opt len thr message s)) = messageQueueRef s
          \<and> map_of (settled (snd (send opt len thr message s))) (promises s)
              = Some (Rejected (JStr ''WebSocket not connected'')))
     \<and> sent (snd (send opt len thr message s)) = sent s"
  using assms by (simp add: send_def Let_def settle_def map_add_def)

text \<open>A request sent before the first connection, with and without \<^verbatim>\<open>config.autoReconnect\<close>.\<close>

theorem send_while_not_open_rejects_witness:
  "messageQueueRef (snd (send DEFAULT_WEBSOCKET_CONFIG 64 None requestMessage initialSocket))
     = [requestMessage]
   \<and> map_of (settled (snd (send DEFAULT_WEBSOCKET_CONFIG 64 None requestMessage initialSocket))) 0
     = Some (Rejected (JStr ''WebSocket not connected - message queued''))
   \<and> messageQueueRef (snd (send (DEFAULT_WEBSOCKET_CONFIG\<lparr>autoReconnect_ws := False\<rparr>) 64 None
                              requestMessage initialSocket)) = []
   \<and> map_of (settled (snd (send (DEFAULT_WEBSOCKET_CONFIG\<lparr>autoReconnect_ws := False\<rparr>) 64 None
                              requestMessage initialSocket))) 0
     = Some (Rejected (JStr ''WebSocket not connected''))"
  using send_while_not_open_rejects
          [where s = initialSocket and opt = DEFAULT_WEBSOCKET_CONFIG and len = 64
             and thr = None and message = requestMessage]
        send_while_not_open_rejects
          [where s = initialSocket and opt = "DEFAULT_WEBSOCKET_CONFIG\<lparr>autoReconnect_ws := False\<rparr>"
             and len = 64 and thr = None and message = requestMessage]
  by (simp add: initialSocket_def DEFAULT_WEBSOCKET_CONFIG_def)

text \<open>
  Claim C5 as stated fails: with an empty queue, far from any capacity, the caller of
  \<open>send\<close> gets a rejected promise.
\<close>

theorem send_queued_is_rejected_counterexample:
  "wsRef initialSocket \<noteq> Some OPEN \<and> messageQueueRef initialSocket = []
   \<and> settled (snd (send DEFAULT_WEBSOCKET_CONFIG 64 None requestMessage initialSocket))
     = [(0, Rejected (JStr ''WebSocket not connected - message queued''))]"
  by (simp add: send_def Let_def settle_def initialSocket_def DEFAULT_WEBSOCKET_CONFIG_def)

section \<open>The heartbeat watchdog\<close>









section \<open>Malformed frames\<close>

lemma malformed_ws_frame_state:
  assumes "parsed = None \<or> (\<exists>m. parsed = Some m \<and> \<not> isWebSocketMessage m)"
  shows "handleMessage opt now (parsed, len) s =
           s\<lparr>lastMessageTime := Some now,
              statistics := (statistics s)
                \<lparr>messageErrors := (if parsed = None \<and> enableStatistics opt
                                    then messageErrors (statistics s) + 1
                                    else messageErrors (statistics s))\<rparr>\<rparr>"
  using assms by (auto simp: handleMessage_def Let_def updateStatistics_def)

lemma handleMessage_ignores_error_count:
  "calls_ws (handleMessage opt now ev (s\<lparr>lastMessageTime := t, statistics := (statistics s)\<lparr>messageErrors := k\<rparr>\<rparr>))
     = calls_ws (handleMessage opt now ev s)
   \<and> settled (handleMessage opt now ev (s\<lparr>lastMessageTime := t, statistics := (statistics s)\<lparr>messageErrors := k\<rparr>\<rparr>))
     = settled (handleMessage opt now ev s)
   \<and> pendingMessagesRef (handleMessage opt now ev (s\<lparr>lastMessageTime := t, statistics := (statistics s)\<lparr>messageErrors := k\<rparr>\<rparr>))
     = pendingMessagesRef (handleMessage opt now ev s)
   \<and> quality (handleMessage opt now ev (s\<lparr>lastMessageTime := t, statistics := (statistics s)\<lparr>messageErrors := k\<rparr>\<rparr>))
     = quality (handleMessage opt now ev s)
   \<and> timers_ws (handleMessage opt now ev (s\<lparr>lastMessageTime := t, statistics := (statistics s)\<lparr>messageErrors := k\<rparr>\<rparr>))
     = timers_ws (handleMessage opt now ev s)
   \<and> messagesReceived (statistics (handleMessage opt now ev (s\<lparr>lastMessageTime := t, statistics := (statistics s)\<lparr>messageErrors := k\<rparr>\<rparr>)))
     = messagesReceived (statistics (handleMessage opt now ev s))"
  by (cases ev)
     (simp add: handleMessage_def Let_def updateStatistics_def updateQuality_def call_ws_def
           settle_def split: option.splits prod.splits)

lemma malformed_sse_frame:
  "(frame = None \<or> frame = Some JNull \<longrightarrow>
      error (handleEvent sopt snow nowIso frame r st) = JStr ''Failed to parse server event''
      \<and> calls (handleEvent sopt snow nowIso frame r st)
          = calls st @ [OnError (JStr ''Failed to parse server event'')]
      \<and> eventSourceRef (handleEvent sopt snow nowIso frame r st) = eventSourceRef st
      \<and> closedSources (handleEvent sopt snow nowIso frame r st) = closedSources st
      \<and> isConnected (handleEvent sopt snow nowIso frame r st) = isConnected st
      \<and> timers (handleEvent sopt snow nowIso frame r st) = timers st
      \<and> task (handleEvent sopt snow nowIso frame r st) = task st)
   \<and> ((\<exists>ev. frame = Some ev \<and> \<not> nullish ev
             \<and> (\<not> truthy (field ev ''type'') \<or> \<not> truthy (field ev ''timestamp'')))
        \<longrightarrow> handleEvent sopt snow nowIso frame r st = st)"
  by (auto simp: handleEvent_def parseFailed_def call_def)

text \<open>
  What follows the handler in the running hook, after a frame that does not parse has
  arrived on the live EventSource of \<open>openedStream\<close>. The handler has set the error text,
  so React renders. With a caller whose callbacks are the same functions in every render
  nothing else happens: the EventSource stays open and the error text stays. With a
  caller like \<^verbatim>\<open>TaskMonitorPage\<close> the render makes a new \<open>connect\<close>, the effect closes the
  EventSource and opens another, and \<open>connect\<close> clears the error text, which causes one
  more round.
\<close>

lemma renders_after_parse_failure:
  "renders 3 False (defaultOptions ''task-1'') workingEnvironment 5010
     (openedStream (defaultOptions ''task-1''))
     (handleEvent (defaultOptions ''task-1'') 5000 (JStr ''2024-01-01T00:00:05.000Z'') None
        (openedStream (defaultOptions ''task-1'')) (openedStream (defaultOptions ''task-1'')))
   = (openedStream (defaultOptions ''task-1''))
       \<lparr>error := JStr ''Failed to parse server event'',
        calls := [OnError (JStr ''Failed to parse server event'')]\<rparr>"
  "renders 3 True (defaultOptions ''task-1'') workingEnvironment 5010
     (openedStream (defaultOptions ''task-1''))
     (handleEvent (defaultOptions ''task-1'') 5000 (JStr ''2024-01-01T00:00:05.000Z'') None
        (openedStream (defaultOptions ''task-1'')) (openedStream (defaultOptions ''task-1'')))
   = (openedStream (defaultOptions ''task-1''))
       \<lparr>eventSourceRef := Some 5, closedSources := [1, 2, 3, 4], fresh := 6,
        connectionStartTimeRef := 5010,
        calls := [OnError (JStr ''Failed to parse server event'')]\<rparr>"
  unfolding openedStream_state by code_simp+

text \<open>
  Claim C7, as amended. In the WebSocket hook a frame that does not parse, or that parses
  to something that is not a message (no \<^verbatim>\<open>type\<close>, \<^verbatim>\<open>timestamp\<close> or \<^verbatim>\<open>messageId\<close> of the
  right kind), is dropped: no callback is invoked, the socket, the connection status, the
  timers and the pending requests stay as they were, and every later frame is handled as
  if the bad frame had not arrived. The counter \<open>messageErrors\<close> goes up by one only for
  a frame that does not parse, and only when statistics are enabled; a frame that parses
  but is not a message changes no counter. In the task stream hook the handler of a frame
  that does not parse (or is \<^verbatim>\<open>null\<close>) sets the error text \<^verbatim>\<open>Failed to parse server event\<close>
  and calls \<^verbatim>\<open>onError\<close> with it, and the handler of a frame without \<^verbatim>\<open>type\<close> or \<^verbatim>\<open>timestamp\<close>
  changes nothing; in both cases the handler itself closes no EventSource, touches no
  timer and leaves the task and the connection flag as they were.
\<close>

theorem malformed_frame_dropped_connection_kept:
  assumes "parsed = None \<or> (\<exists>m. parsed = Some m \<and> \<not> isWebSocketMessage m)"
  shows "calls_ws (handleMessage opt now (parsed, len) s) = calls_ws s
     \<and> wsRef (handleMessage opt now (parsed, len) s) = wsRef s
     \<and> status_ws (handleMessage opt now (parsed, len) s) = status_ws s
     \<and> isConnected_ws (handleMessage opt now (parsed, len) s) = isConnected_ws s
     \<and> timers_ws (handleMessage opt now (parsed, len) s) = timers_ws s
     \<and> pendingMessagesRef (handleMessage opt now (parsed, len) s) = pendingMessagesRef s
     \<and> settled (handleMessage opt now (parsed, len) s) = settled s
     \<and> messageErrors (statistics (handleMessage opt now (parsed, len) s))
         = (if parsed = None \<and> enableStatistics opt
            then messageErrors (statistics s) + 1 else messageErrors (statistics s))
     \<and> (parsed \<noteq> None \<longrightarrow> statistics (handleMessage opt now (parsed, len) s) = statistics s)
     \<and> calls_ws (handleMessage opt now2 next (handleMessage opt now (parsed, len) s))
         = calls_ws (handleMessage opt now2 next s)
     \<and> settled (handleMessage opt now2 next (handleMessage opt now (parsed, len) s))
         = settled (handleMessage opt now2 next s)
     \<and> pendingMessagesRef (handleMessage opt now2 next (handleMessage opt now (parsed, len) s))
         = pendingMessagesRef (handleMessage opt now2 next s)
     \<and> quality (handleMessage opt now2 next (handleMessage opt now (parsed, len) s))
         = quality (handleMessage opt now2 next s)
     \<and> messagesReceived (statistics (handleMessage opt now2 next (handleMessage opt now (parsed, len) s)))
         = messagesReceived (statistics (handleMessage opt now2 next s))
     \<and> (frame = None \<or> frame = Some JNull \<longrightarrow>
          error (handleEvent sopt snow nowIso frame r st) = JStr ''Failed to parse server event''
          \<and> calls (handleEvent sopt snow nowIso frame r st)
              = calls st @ [OnError (JStr ''Failed to parse server event'')]
          \<and> eventSourceRef (handleEvent sopt snow nowIso frame r st) = eventSourceRef st
          \<and> closedSources (handleEvent sopt snow nowIso frame r st) = closedSources st
          \<and> isConnected (handleEvent sopt snow nowIso frame r st) = isConnected st
          \<and> timers (handleEvent sopt snow nowIso frame r st) = timers st
          \<and> task (handleEvent sopt snow nowIso frame r st) = task st)
     \<and> ((\<exists>ev. frame = Some ev \<and> \<not> nullish ev
               \<and> (\<not> truthy (field ev ''type'') \<or> \<not> truthy (field ev ''timestamp'')))
          \<longrightarrow> handleEvent sopt snow nowIso frame r st = st)"
proof -
  note st = malformed_ws_frame_state [OF assms, of opt now len s]
  have a: "calls_ws (handleMessage opt now (parsed, len) s) = calls_ws s
     \<and> wsRef (handleMessage opt now (parsed, len) s) = wsRef s
     \<and> status_ws (handleMessage opt now (parsed, len) s) = status_ws s
     \<and> isConnected_ws (handleMessage opt now (parsed, len) s) = isConnected_ws s
     \<and> timers_ws (handleMessage opt now (parsed, len) s) = timers_ws s
     \<and> pendingMessagesRef (handleMessage opt now (parsed, len) s) = pendingMessagesRef s
     \<and> settled (handleMessage opt now (parsed, len) s) = settled s"
    by (simp add: st)
  have b: "messageErrors (statistics (handleMessage opt now (parsed, len) s))
         = (if parsed = None \<and> enableStatistics opt
            then messageErrors (statistics s) + 1 else messageErrors (statistics s))"
    by (simp add: st)
  have c: "parsed \<noteq> None \<longrightarrow> statistics (handleMessage opt now (parsed, len) s) = statistics s"
    by (simp add: st)
  have d: "calls_ws (handleMessage opt now2 next (handleMessage opt now (parsed, len) s))
         = calls_ws (handleMessage opt now2 next s)
     \<and> settled (handleMessage opt now2 next (handleMessage opt now (parsed, len) s))
         = settled (handleMessage opt now2 next s)
     \<and> pendingMessagesRef (handleMessage opt now2 next (handleMessage opt now (parsed, len) s))
         = pendingMessagesRef (handleMessage opt now2 next s)
     \<and> quality (handleMessage opt now2 next (handleMessage opt now (parsed, len) s))
         = quality (handleMessage opt now2 next s)
     \<and> messagesReceived (statistics (handleMessage opt now2 next (handleMessage opt now (parsed, len) s)))
         = messagesReceived (statistics (handleMessage opt now2 next s))"
    unfolding st using handleMessage_ignores_error_count [where opt = opt and now = now2 and ev = "next" and s = s] by blast
  from a b c d malformed_sse_frame [of frame sopt snow nowIso r st] show ?thesis by blast
qed

text \<open>
  A frame that does not parse, followed by a pong, on an open socket; and, on the live
  EventSource of \<open>openedStream\<close>, a frame that does not parse and a frame without a type.
\<close>

theorem malformed_frame_dropped_connection_kept_witness:
  "messageErrors (statistics (handleMessage DEFAULT_WEBSOCKET_CONFIG 5000 (None, 7) openSocket)) = 1
   \<and> status_ws (handleMessage DEFAULT_WEBSOCKET_CONFIG 5000 (None, 7) openSocket) = Connected
   \<and> wsRef (handleMessage DEFAULT_WEBSOCKET_CONFIG 5000 (None, 7) openSocket) = Some OPEN
   \<and> calls_ws (handleMessage DEFAULT_WEBSOCKET_CONFIG 6000 (Some pongMessage, 70)
                 (handleMessage DEFAULT_WEBSOCKET_CONFIG 5000 (None, 7) openSocket))
       = calls_ws (handleMessage DEFAULT_WEBSOCKET_CONFIG 6000 (Some pongMessage, 70) openSocket)
   \<and> error (handleEvent (defaultOptions ''task-1'') 5000 (JStr ''2024-01-01T00:00:05.000Z'') None
               (openedStream (defaultOptions ''task-1'')) (openedStream (defaultOptions ''task-1'')))
       = JStr ''Failed to parse server event''
   \<and> calls (handleEvent (defaultOptions ''task-1'') 5000 (JStr ''2024-01-01T00:00:05.000Z'') None
               (openedStream (defaultOptions ''task-1'')) (openedStream (defaultOptions ''task-1'')))
       = [OnError (JStr ''Failed to parse server event'')]
   \<and> eventSourceRef (handleEvent (defaultOptions ''task-1'') 5000 (JStr ''2024-01-01T00:00:05.000Z'')
                        None (openedStream (defaultOptions ''task-1''))
                        (openedStream (defaultOptions ''task-1'')))
       = Some 3
   \<and> closedSources (handleEvent (defaultOptions ''task-1'') 5000 (JStr ''2024-01-01T00:00:05.000Z'')
                       None (openedStream (defaultOptions ''task-1''))
                       (openedStream (defaultOptions ''task-1'')))
       = [1, 2]
   \<and> handleEvent (defaultOptions ''task-1'') 5000 (JStr ''2024-01-01T00:00:05.000Z'')
        (Some (JObj [(''data'', JNull)])) (openedStream (defaultOptions ''task-1''))
        (openedStream (defaultOptions ''task-1''))
       = openedStream (defaultOptions ''task-1'')"
  using malformed_frame_dropped_connection_kept
          [where parsed = None and opt = DEFAULT_WEBSOCKET_CONFIG and now = 5000 and len = 7
             and s = openSocket and ?now2.0 = 6000 and ?next = "(Some pongMessage, 70)"
             and frame = "Some (JObj [(''data'', JNull)])"
             and sopt = "defaultOptions ''task-1''" and snow = 5000
             and nowIso = "JStr ''2024-01-01T00:00:05.000Z''"
             and r = "openedStream (defaultOptions ''task-1'')"
             and st = "openedStream (defaultOptions ''task-1'')"]
        malformed_frame_dropped_connection_kept
          [where parsed = None and opt = DEFAULT_WEBSOCKET_CONFIG and now = 5000 and len = 7
             and s = openSocket and ?now2.0 = 6000 and ?next = "(Some pongMessage, 70)"
             and frame = None
             and sopt = "defaultOptions ''task-1''" and snow = 5000
             and nowIso = "JStr ''2024-01-01T00:00:05.000Z''"
             and r = "openedStream (defaultOptions ''task-1'')"
             and st = "openedStream (defaultOptions ''task-1'')"]
  by (simp add: openSocket_def connect_ws_def handleOpen_def Let_def initialSocket_def
        setTimer_def updateStatistics_def startHeartbeat_def call_ws_def arm_def
        DEFAULT_WEBSOCKET_CONFIG_def noStatistics_def openedStream_state)

text \<open>
  Claim C7 as stated fails for a frame that lacks the required fields: it is dropped, but
  no counter moves.
\<close>

theorem malformed_frame_not_counted_counterexample:
  "\<not> isWebSocketMessage untimedFrame \<and> enableStatistics DEFAULT_WEBSOCKET_CONFIG
   \<and> statistics (handleMessage DEFAULT_WEBSOCKET_CONFIG 5000 (Some untimedFrame, 54) openSocket)
       = statistics openSocket"
  by (simp add: untimedFrame_def isWebSocketMessage_def handleMessage_def DEFAULT_WEBSOCKET_CONFIG_def)

section \<open>Aggregate statistics\<close>

lemma four_counts:
  "length (filter (hasStatus ''pending'') vs) + length (filter (hasStatus ''running'') vs)
   + length (filter (hasStatus ''completed'') vs) + length (filter (hasStatus ''failed'') vs)
   = length (filter counted vs)"
  by (induction vs) (auto simp: counted_def hasStatus_def split: option.splits)

text \<open>
  Claim C8, as amended. \<open>totalTasks\<close> is the number of watched ids. The four counts are
  taken over the task records: their sum is the number of records whose status is
  \<^verbatim>\<open>pending\<close>, \<^verbatim>\<open>running\<close>, \<^verbatim>\<open>completed\<close> or \<^verbatim>\<open>failed\<close>, so it is at most the number of
  records. The hook never stores a task record, so for every list of ids the four counts
  are 0 while the total is the length of the list.
\<close>

theorem stats_sum_counts_known_statuses:
  "totalTasks (computeOverallStats tasks taskIds) = length taskIds
   \<and> pendingTasks (computeOverallStats tasks taskIds) + runningTasks (computeOverallStats tasks taskIds)
     + completedTasks (computeOverallStats tasks taskIds) + failedTasks (computeOverallStats tasks taskIds)
     = length (filter counted (map snd tasks))
   \<and> pendingTasks (computeOverallStats tasks taskIds) + runningTasks (computeOverallStats tasks taskIds)
     + completedTasks (computeOverallStats tasks taskIds) + failedTasks (computeOverallStats tasks taskIds)
     \<le> length tasks
   \<and> pendingTasks (useBatchTaskStream taskIds) + runningTasks (useBatchTaskStream taskIds)
     + completedTasks (useBatchTaskStream taskIds) + failedTasks (useBatchTaskStream taskIds) = 0
   \<and> totalTasks (useBatchTaskStream taskIds) = length taskIds"
proof -
  have "length (filter counted (map snd tasks)) \<le> length tasks"
    using length_filter_le [of counted "map snd tasks"] by simp
  then show ?thesis
    using four_counts [of "map snd tasks"]
    by (simp add: computeOverallStats_def useBatchTaskStream_def Let_def)
qed

text \<open>
  Claim C8 as stated fails as soon as one task is watched: the four counts sum to 0 and
  the total is 1. The same happens when the effect is given a record that holds the task
  with status \<^verbatim>\<open>queued\<close>, which none of the four counts counts.
\<close>

theorem stats_sum_counterexample:
  "pendingTasks (useBatchTaskStream [''task-1'']) + runningTasks (useBatchTaskStream [''task-1''])
     + completedTasks (useBatchTaskStream [''task-1'']) + failedTasks (useBatchTaskStream [''task-1''])
   = 0
   \<and> totalTasks (useBatchTaskStream [''task-1'']) = 1
   \<and> pendingTasks (computeOverallStats [(''task-1'', Some queuedTask)] [''task-1''])
     + runningTasks (computeOverallStats [(''task-1'', Some queuedTask)] [''task-1''])
     + completedTasks (computeOverallStats [(''task-1'', Some queuedTask)] [''task-1''])
     + failedTasks (computeOverallStats [(''task-1'', Some queuedTask)] [''task-1''])
   = 0
   \<and> totalTasks (computeOverallStats [(''task-1'', Some queuedTask)] [''task-1'']) = 1"
  by (simp add: useBatchTaskStream_def computeOverallStats_def hasStatus_def queuedTask_def)

section \<open>Page visibility and network signals\<close>






section \<open>Pong frames\<close>

text \<open>
  The numbers of the quality record are real numbers: the formula of \<open>updateQuality\<close> with
  the operations of the source read as exact. The source computes them in double precision.
\<close>





end
